theory Spec2Isabelle
  imports Complex_Main "HOL-Library.Char_ord" "HOL-Library.List_Lexorder" "HOL-Library.Product_Lexorder"
begin

section \<open>Values held by the tabular records\<close>

text \<open>
  The program keeps its monitoring records in pandas data frames whose cells are
  dynamically typed. A cell of a flag or reading column is a Python string, an integer,
  a boolean, a float or the missing value \<open>nan\<close>. The database schema of the repository
  declares the numeric columns as \<open>Column(Integer)\<close>, but a numeric column that holds a
  missing value, or held one before it was filled, is a column of floats in pandas. A cell
  of a column that the schema declares as \<open>String\<close> (blood pressure, movement activity,
  impact force level, location, reminder type) is a text or missing. Strings are lists of
  8-bit characters, so the texts in scope are the Latin-1 ones; the column name \<open>SpO\<^sub>2\<close>
  is written \<open>SpO2\<close> in identifiers.

  A finite float is held as the decimal that Python prints for it, the shortest one that
  reads back as the same float: \<open>PyFloat neg m e\<close> is \<open>m\<close> times ten to the power \<open>e\<close>,
  negated if \<open>neg\<close> (which tells \<open>-0.0\<close> from \<open>0.0\<close>). So \<open>45.0\<close> is \<open>PyFloat False 45 0\<close>
  and \<open>301.5\<close> is \<open>PyFloat False 3015 (- 1)\<close>. Reading and printing are inverse to each
  other, so distinct floats have distinct decimals. The integers up to \<open>2 ^ 53\<close> are
  floats and print as themselves, and rounding to the nearest float is monotone; hence a
  float and its decimal lie on the same side of every such integer, and comparing the
  decimal with an integer, or cutting off its fraction below \<open>2 ^ 53\<close>, is doing so
  with the float. The infinities, which no reading or duration is, are left out.
\<close>

datatype cell = PyStr string | PyInt int | PyBool bool | PyFloat bool nat int | PyNaN

datatype text_cell = Txt string | NoTxt

text \<open>
  A timestamp cell is either the raw text read from a file or a parsed instant, counted
  in nanoseconds since the epoch as a pandas \<open>Timestamp\<close> is. A scheduled time is either
  raw text or a \<open>datetime.time\<close> value (hour, minute, second).
\<close>

datatype stamp = RawTs string | Ts int

datatype tod = RawTime string | TimeOfDay nat nat nat

datatype error = TypeError | ValueError | OverflowError | AttributeError | KeyError

text \<open>A frame is the list of its rows in order, each with its index label, as
  \<open>iterrows\<close> yields them.\<close>

type_synonym 'r frame = "(nat \<times> 'r) list"

definition bindE :: "error + 'a \<Rightarrow> ('a \<Rightarrow> error + 'b) \<Rightarrow> error + 'b" where
  "bindE m f = (case m of Inl e \<Rightarrow> Inl e | Inr x \<Rightarrow> f x)"

text \<open>An operation applied to a column cell by cell, in row order: the first cell
  that raises ends it.\<close>

fun map_rows :: "('r \<Rightarrow> error + 'q) \<Rightarrow> 'r frame \<Rightarrow> error + 'q frame" where
  "map_rows f [] = Inr []"
| "map_rows f ((idx, row) # rest) =
     (case f row of
        Inl e \<Rightarrow> Inl e
      | Inr row' \<Rightarrow> (case map_rows f rest of Inl e \<Rightarrow> Inl e | Inr rest' \<Rightarrow> Inr ((idx, row') # rest')))"

subsection \<open>Python's \<open>str\<close>, \<open>int\<close> and comparisons on cells\<close>

definition digit_chr :: "nat \<Rightarrow> char" where
  "digit_chr d = ''0123456789'' ! d"

fun str_nat :: "nat \<Rightarrow> string" where
  "str_nat n = (if n < 10 then [digit_chr n] else str_nat (n div 10) @ [digit_chr (n mod 10)])"

declare str_nat.simps [simp del]

definition str_int :: "int \<Rightarrow> string" where
  "str_int i = (if i < 0 then CHR ''-'' # str_nat (nat (- i)) else str_nat (nat i))"

definition two_digits :: "nat \<Rightarrow> string" where
  "two_digits n = (if n < 10 then CHR ''0'' # str_nat n else str_nat n)"

text \<open>The value of a float.\<close>

definition float_value :: "bool \<Rightarrow> nat \<Rightarrow> int \<Rightarrow> rat" where
  "float_value neg m e =
     (if neg then - 1 else 1) * of_nat m * (if 0 \<le> e then 10 ^ nat e else 1 / 10 ^ nat (- e))"

text \<open>
  \<open>str\<close> of a float is its \<open>repr\<close>. With the digits \<open>ds\<close> of the decimal, none of them a
  trailing zero, and the decimal point \<open>decpt\<close> places after the first digit's left side
  (the value is \<open>0.ds\<close> times ten to the power \<open>decpt\<close>), Python writes the exponent form
  \<open>d.ddde+XX\<close> if \<open>decpt > 16\<close> or \<open>decpt \<le> -4\<close>, with two digits of exponent at least,
  and else the plain form, which always has a digit on either side of the point.
\<close>

fun strip_zeros :: "nat \<Rightarrow> int \<Rightarrow> nat \<times> int" where
  "strip_zeros m e = (if m \<noteq> 0 \<and> m mod 10 = 0 then strip_zeros (m div 10) (e + 1) else (m, e))"

declare strip_zeros.simps [simp del]

definition str_exponent :: "int \<Rightarrow> string" where
  "str_exponent x = (if x < 0 then CHR ''-'' else CHR ''+'') # two_digits (nat \<bar>x\<bar>)"

definition str_float :: "bool \<Rightarrow> nat \<Rightarrow> int \<Rightarrow> string" where
  "str_float neg m e =
     (let (d, e') = strip_zeros m e;
          ds = str_nat d;
          n = int (length ds);
          decpt = n + e';
          body =
            (if d = 0 then ''0.0''
             else if decpt > 16 \<or> decpt \<le> - 4
             then hd ds # (if tl ds = [] then [] else CHR ''.'' # tl ds)
                  @ CHR ''e'' # str_exponent (decpt - 1)
             else if decpt \<le> 0 then ''0.'' @ replicate (nat (- decpt)) CHR ''0'' @ ds
             else if n \<le> decpt then ds @ replicate (nat (decpt - n)) CHR ''0'' @ ''.0''
             else take (nat decpt) ds @ CHR ''.'' # drop (nat decpt) ds)
      in if neg then CHR ''-'' # body else body)"

fun py_str :: "cell \<Rightarrow> string" where
  "py_str (PyStr s) = s"
| "py_str (PyInt i) = str_int i"
| "py_str (PyBool b) = (if b then ''True'' else ''False'')"
| "py_str (PyFloat neg m e) = str_float neg m e"
| "py_str PyNaN = ''nan''"

fun str_text :: "text_cell \<Rightarrow> string" where
  "str_text (Txt s) = s"
| "str_text NoTxt = ''nan''"

text \<open>\<open>str\<close> of a \<open>datetime.time\<close> without microseconds is \<open>HH:MM:SS\<close>.\<close>

fun str_tod :: "tod \<Rightarrow> string" where
  "str_tod (RawTime s) = s"
| "str_tod (TimeOfDay h m s) = two_digits h @ '':'' @ two_digits m @ '':'' @ two_digits s"

text \<open>
  \<open>x == True\<close> and \<open>x == False\<close>: a boolean equals itself, and Python's \<open>1 == True\<close> and
  \<open>0 == False\<close> hold as well, also of the floats \<open>1.0\<close> and \<open>0.0\<close>; a string or \<open>nan\<close>
  equals neither.
\<close>

fun eq_bool :: "cell \<Rightarrow> bool \<Rightarrow> bool" where
  "eq_bool (PyBool x) b = (x = b)"
| "eq_bool (PyInt i) b = (i = (if b then 1 else 0))"
| "eq_bool (PyFloat neg m e) b = (float_value neg m e = (if b then 1 else 0))"
| "eq_bool (PyStr s) b = False"
| "eq_bool PyNaN b = False"

text \<open>
  \<open>x > n\<close> for an integer \<open>n\<close>: integers and floats compare, a boolean counts as 0 or 1,
  every comparison with \<open>nan\<close> is false, and a string raises \<open>TypeError\<close>.
\<close>

fun gt_int :: "cell \<Rightarrow> int \<Rightarrow> error + bool" where
  "gt_int (PyInt i) n = Inr (i > n)"
| "gt_int (PyBool b) n = Inr ((if b then 1 else 0) > n)"
| "gt_int (PyFloat neg m e) n = Inr (float_value neg m e > of_int n)"
| "gt_int PyNaN n = Inr False"
| "gt_int (PyStr s) n = Inl TypeError"

text \<open>Truth value of a cell as \<open>Series.any()\<close> sees it: missing values are skipped.\<close>

fun truthy :: "cell \<Rightarrow> bool" where
  "truthy (PyBool b) = b"
| "truthy (PyInt i) = (i \<noteq> 0)"
| "truthy (PyFloat neg m e) = (m \<noteq> 0)"
| "truthy (PyStr s) = (s \<noteq> [])"
| "truthy PyNaN = False"

text \<open>\<open>sep.join(parts)\<close>.\<close>

fun join :: "string \<Rightarrow> string list \<Rightarrow> string" where
  "join sep [] = []"
| "join sep [x] = x"
| "join sep (x # y # ys) = x @ sep @ join sep (y # ys)"

definition is_digit :: "char \<Rightarrow> bool" where
  "is_digit c = (c \<in> set ''0123456789'')"

definition digit_val :: "char \<Rightarrow> nat" where
  "digit_val c = length (takeWhile (\<lambda>d. d \<noteq> c) ''0123456789'')"

definition nat_of_digits :: "string \<Rightarrow> nat" where
  "nat_of_digits ds = foldl (\<lambda>n c. 10 * n + digit_val c) 0 ds"

text \<open>The characters that \<open>str.strip\<close> and \<open>int\<close> treat as white space, among the
  first 256 code points.\<close>

definition is_space :: "char \<Rightarrow> bool" where
  "is_space c = (of_char c \<in> set [9, 10, 11, 12, 13, 28, 29, 30, 31, 32, 133, 160 :: nat])"

definition strip :: "string \<Rightarrow> string" where
  "strip s = rev (dropWhile is_space (rev (dropWhile is_space s)))"

text \<open>The digits of a decimal literal: a digit first, and every underscore between
  two digits.\<close>

fun int_body :: "string \<Rightarrow> bool" where
  "int_body [] = False"
| "int_body [c] = is_digit c"
| "int_body (c # d # ds) =
     (is_digit c \<and> (if d = CHR ''_'' then ds \<noteq> [] \<and> int_body ds else int_body (d # ds)))"

text \<open>\<open>int(s)\<close> for a string: \<open>None\<close> where Python raises \<open>ValueError\<close>.\<close>

definition py_int :: "string \<Rightarrow> int option" where
  "py_int s =
     (let t = strip s;
          neg = (t \<noteq> [] \<and> hd t = CHR ''-'');
          body = (if t \<noteq> [] \<and> (hd t = CHR ''-'' \<or> hd t = CHR ''+'') then tl t else t)
      in if int_body body
         then Some ((if neg then - 1 else 1) * int (nat_of_digits (filter is_digit body)))
         else None)"

definition in_int64 :: "int \<Rightarrow> bool" where
  "in_int64 i = (- (2 ^ 63) \<le> i \<and> i < 2 ^ 63)"

text \<open>
  \<open>astype(int)\<close> on one cell, into a 64-bit integer: \<open>nan\<close> and a text that is no integer
  literal raise \<open>ValueError\<close>. An integer from \<open>2 ^ 63\<close> up to \<open>2 ^ 64 - 1\<close> sits in a
  column of unsigned 64-bit numbers, and the cast wraps it around; one further out is a
  Python object, and raises \<open>OverflowError\<close>, as does the integer that \<open>int\<close> reads from
  a text when it does not fit. A float loses its fraction and never raises: one beyond
  the 64-bit range becomes the least 64-bit integer, which is what the conversion of the
  processor yields on x86-64. (A float from \<open>2 ^ 53\<close> on is an integer that its decimal
  need not spell out in full; the decimal is taken for it here.)
\<close>

definition truncate :: "rat \<Rightarrow> int" where
  "truncate x = (if x < 0 then - \<lfloor>- x\<rfloor> else \<lfloor>x\<rfloor>)"

fun astype_int :: "cell \<Rightarrow> error + cell" where
  "astype_int (PyInt i) =
     (if in_int64 i then Inr (PyInt i)
      else if 0 \<le> i \<and> i < 2 ^ 64 then Inr (PyInt (i - 2 ^ 64))
      else Inl OverflowError)"
| "astype_int (PyBool b) = Inr (PyInt (if b then 1 else 0))"
| "astype_int (PyFloat neg m e) =
     (let i = truncate (float_value neg m e)
      in Inr (PyInt (if in_int64 i then i else - (2 ^ 63))))"
| "astype_int PyNaN = Inl ValueError"
| "astype_int (PyStr s) =
     (case py_int s of
        None \<Rightarrow> Inl ValueError
      | Some i \<Rightarrow> if in_int64 i then Inr (PyInt i) else Inl OverflowError)"

subsection \<open>The regular expression \<open>(\d+)/(\d+)\<close>\<close>

text \<open>
  A match that starts at the head of the text: \<open>\d+\<close> is greedy and takes the whole run
  of digits; giving digits back cannot help, since the character after a shorter run is
  a digit and not the slash.
\<close>

definition match_here :: "string \<Rightarrow> (string \<times> string) option" where
  "match_here s =
     (let g1 = takeWhile is_digit s; rest = dropWhile is_digit s
      in if g1 = [] then None
         else case rest of
                [] \<Rightarrow> None
              | c # rest' \<Rightarrow>
                  if c = CHR ''/''
                  then (let g2 = takeWhile is_digit rest'
                        in if g2 = [] then None else Some (g1, g2))
                  else None)"

text \<open>\<open>Series.str.extract\<close> searches the text: the leftmost position with a match wins.\<close>

fun re_search :: "string \<Rightarrow> (string \<times> string) option" where
  "re_search [] = None"
| "re_search (c # cs) =
     (case match_here (c # cs) of Some g \<Rightarrow> Some g | None \<Rightarrow> re_search cs)"

fun str_extract :: "text_cell \<Rightarrow> cell \<times> cell" where
  "str_extract (Txt s) =
     (case re_search s of Some (g1, g2) \<Rightarrow> (PyStr g1, PyStr g2) | None \<Rightarrow> (PyNaN, PyNaN))"
| "str_extract NoTxt = (PyNaN, PyNaN)"

subsection \<open>\<open>pandas.cut\<close>\<close>

text \<open>
  \<open>pd.cut(x, bins, labels)\<close> with its defaults \<open>right=True\<close>, \<open>include_lowest=False\<close>:
  the bin of \<open>x\<close> is found by \<open>searchsorted(bins, x, side='left')\<close>, the number of edges
  strictly below \<open>x\<close>; no edge below, or all edges below, is the missing value. A score
  is a float; every float is a rational, and the floats nearest to 0.3, 0.6 and 0.7 lie
  just below them with no float in between, so comparing a float with the literal is
  comparing it with the fraction.
\<close>

definition pd_cut :: "rat list \<Rightarrow> string list \<Rightarrow> rat \<Rightarrow> cell" where
  "pd_cut bins labels x =
     (let i = length (takeWhile (\<lambda>b. b < x) bins)
      in if i = 0 \<or> i = length bins then PyNaN else PyStr (labels ! (i - 1)))"

section \<open>Monitoring events and alerts\<close>

text \<open>
  One record per row of the three data frames. The fields are the columns of the
  repository's schema; the columns that the normaliser or a predictor adds later are
  optional fields, \<open>None\<close> while the column is absent. Renaming the columns to their
  stripped names changes no field.
\<close>

record health_row =
  h_Device_ID :: string
  h_Timestamp :: stamp
  h_Heart_Rate :: cell
  h_Heart_Rate_Threshold :: cell
  h_Blood_Pressure :: text_cell
  h_Blood_Pressure_Threshold :: cell
  h_Glucose_Levels :: cell
  h_Glucose_Threshold :: cell
  h_Oxygen_Saturation :: cell
  h_SpO2_Threshold :: cell
  h_Alert_Triggered :: cell
  h_Caregiver_Notified :: cell
  h_Date :: "int option"
  h_Systolic :: "cell option"
  h_Diastolic :: "cell option"
  h_SpO2 :: "cell option"

record safety_row =
  s_Device_ID :: string
  s_Timestamp :: stamp
  s_Movement_Activity :: text_cell
  s_Fall_Detected :: cell
  s_Impact_Force_Level :: text_cell
  s_Inactivity_Duration :: cell
  s_Location :: text_cell
  s_Alert_Triggered :: cell
  s_Caregiver_Notified :: cell
  s_Date :: "int option"
  s_Hour :: "int option"
  s_DayOfWeek :: "int option"
  s_Next_Day_Fall :: "bool option"

record reminder_row =
  r_Device_ID :: string
  r_Timestamp :: stamp
  r_Reminder_Type :: text_cell
  r_Scheduled_Time :: tod
  r_Reminder_Sent :: cell
  r_Acknowledged :: cell
  r_Date :: "int option"
  r_Hour :: "int option"
  r_DayOfWeek :: "int option"
  r_Type_dummies :: "(string \<times> bool) list option"
  r_Effective :: "cell option"

text \<open>The dictionary built for every alert.\<close>

record alert =
  Device_ID :: string
  Alert_Type :: string
  Timestamp :: stamp
  Status :: string
  Message :: string
  Priority :: string

section \<open>The alert rule engine (\<open>alert_system.py\<close>)\<close>

subsection \<open>Health alerts\<close>

definition health_reasons :: "health_row \<Rightarrow> string list" where
  "health_reasons row =
     (if h_Heart_Rate_Threshold row = PyStr ''Yes''
      then [''Abnormal heart rate: '' @ py_str (h_Heart_Rate row)] else [])
     @ (if h_Blood_Pressure_Threshold row = PyStr ''Yes''
        then [''Abnormal blood pressure: '' @ str_text (h_Blood_Pressure row)] else [])
     @ (if h_Glucose_Threshold row = PyStr ''Yes''
        then [''Abnormal glucose level: '' @ py_str (h_Glucose_Levels row)] else [])
     @ (if h_SpO2_Threshold row = PyStr ''Yes''
        then [''Low oxygen saturation: '' @ py_str (h_Oxygen_Saturation row) @ ''%''] else [])"

definition health_alert :: "health_row \<Rightarrow> alert" where
  "health_alert row =
     (let alert_reasons = health_reasons row;
          message = join ''; '' alert_reasons
      in \<lparr> Device_ID = h_Device_ID row,
           Alert_Type = ''Health'',
           Timestamp = h_Timestamp row,
           Status = (if h_Caregiver_Notified row = PyStr ''No'' then ''Active'' else ''Notified''),
           Message = message,
           Priority = (if length alert_reasons > 1 then ''High'' else ''Medium'') \<rparr>)"

text \<open>The \<open>for\<close> loop over the selected rows, appending to \<open>alerts\<close>.\<close>

fun health_loop :: "health_row frame \<Rightarrow> alert list \<Rightarrow> alert list" where
  "health_loop [] alerts = alerts"
| "health_loop ((idx, row) # rest) alerts = health_loop rest (alerts @ [health_alert row])"

definition generate_health_alerts :: "health_row frame \<Rightarrow> alert list" where
  "generate_health_alerts df =
     (let alert_records = filter (\<lambda>(idx, row). h_Alert_Triggered row = PyStr ''Yes'') df
      in health_loop alert_records [])"

subsection \<open>Safety alerts\<close>

text \<open>\<open>impact == 'High' or inactivity > 300\<close>: the comparison is evaluated only when
  the first operand is false.\<close>

definition safety_alert :: "safety_row \<Rightarrow> error + alert" where
  "safety_alert row =
     (let location = s_Location row;
          impact = s_Impact_Force_Level row;
          inactivity = s_Inactivity_Duration row;
          message = ''Fall detected in '' @ str_text location @ '' with '' @ str_text impact
                    @ '' impact. '' @ py_str inactivity @ '' seconds of inactivity.''
      in case (if impact = Txt ''High'' then Inr True else gt_int inactivity 300) of
           Inl e \<Rightarrow> Inl e
         | Inr high \<Rightarrow>
             Inr \<lparr> Device_ID = s_Device_ID row,
                   Alert_Type = ''Fall'',
                   Timestamp = s_Timestamp row,
                   Status = (if eq_bool (s_Caregiver_Notified row) False
                             then ''Active'' else ''Notified''),
                   Message = message,
                   Priority = (if high then ''High'' else ''Medium'') \<rparr>)"

fun safety_loop :: "safety_row frame \<Rightarrow> alert list \<Rightarrow> error + alert list" where
  "safety_loop [] alerts = Inr alerts"
| "safety_loop ((idx, row) # rest) alerts =
     (case safety_alert row of
        Inl e \<Rightarrow> Inl e
      | Inr a \<Rightarrow> safety_loop rest (alerts @ [a]))"

definition generate_safety_alerts :: "safety_row frame \<Rightarrow> error + alert list" where
  "generate_safety_alerts df =
     (let fall_records = filter (\<lambda>(idx, row). eq_bool (s_Fall_Detected row) True) df
      in safety_loop fall_records [])"

subsection \<open>Reminder alerts\<close>

definition reminder_alert :: "reminder_row \<Rightarrow> alert" where
  "reminder_alert row =
     (let reminder_type = r_Reminder_Type row;
          scheduled_time = r_Scheduled_Time row;
          message = str_text reminder_type @ '' reminder scheduled for ''
                    @ str_tod scheduled_time @ '' was not acknowledged.''
      in \<lparr> Device_ID = r_Device_ID row,
           Alert_Type = ''Reminder'',
           Timestamp = r_Timestamp row,
           Status = ''Active'',
           Message = message,
           Priority = (if reminder_type = Txt ''Medication'' then ''Medium'' else ''Low'') \<rparr>)"

fun reminder_loop :: "reminder_row frame \<Rightarrow> alert list \<Rightarrow> alert list" where
  "reminder_loop [] alerts = alerts"
| "reminder_loop ((idx, row) # rest) alerts =
     (if r_Reminder_Type row \<in> set [Txt ''Medication'', Txt ''Appointment'']
      then reminder_loop rest (alerts @ [reminder_alert row])
      else reminder_loop rest alerts)"

definition generate_reminder_alerts :: "reminder_row frame \<Rightarrow> alert list" where
  "generate_reminder_alerts df =
     (let unack_records = filter (\<lambda>(idx, row). eq_bool (r_Reminder_Sent row) True
                                     \<and> eq_bool (r_Acknowledged row) False) df
      in reminder_loop unack_records [])"

subsection \<open>All alerts, most recent first\<close>

text \<open>
  \<open>list.sort(key=..., reverse=True)\<close> is stable: CPython reverses the list, sorts it
  stably in ascending order and reverses the result. Two keys are comparable when both
  are instants or both are raw texts (ordered as Python orders strings, by code point);
  comparing an instant with a text raises \<open>TypeError\<close>, and any sort of two or more
  elements of mixed kinds makes such a comparison.
\<close>

definition py_sort_reverse :: "('a \<Rightarrow> 'k::linorder) \<Rightarrow> 'a list \<Rightarrow> 'a list" where
  "py_sort_reverse key xs = rev (sort_key key (rev xs))"

fun is_Ts :: "stamp \<Rightarrow> bool" where
  "is_Ts (Ts t) = True"
| "is_Ts (RawTs s) = False"

fun the_Ts :: "stamp \<Rightarrow> int" where
  "the_Ts (Ts t) = t"
| "the_Ts (RawTs s) = 0"

fun the_RawTs :: "stamp \<Rightarrow> string" where
  "the_RawTs (RawTs s) = s"
| "the_RawTs (Ts t) = []"

definition sort_by_timestamp_reverse :: "alert list \<Rightarrow> error + alert list" where
  "sort_by_timestamp_reverse alerts =
     (if list_all (\<lambda>a. is_Ts (Timestamp a)) alerts
      then Inr (py_sort_reverse (\<lambda>a. the_Ts (Timestamp a)) alerts)
      else if list_all (\<lambda>a. \<not> is_Ts (Timestamp a)) alerts
      then Inr (py_sort_reverse (\<lambda>a. the_RawTs (Timestamp a)) alerts)
      else Inl TypeError)"

text \<open>The order of two timestamps, where Python defines it.\<close>

fun stamp_le :: "stamp \<Rightarrow> stamp \<Rightarrow> bool" where
  "stamp_le (Ts a) (Ts b) = (a \<le> b)"
| "stamp_le (RawTs a) (RawTs b) = (a \<le> b)"
| "stamp_le (Ts a) (RawTs b) = False"
| "stamp_le (RawTs a) (Ts b) = False"

text \<open>The three per-domain lists in the order in which \<open>generate_alerts\<close> extends
  \<open>alerts\<close>; an absent input (\<open>None\<close>) contributes nothing.\<close>

definition collect_alerts ::
  "health_row frame option \<Rightarrow> safety_row frame option \<Rightarrow> reminder_row frame option
   \<Rightarrow> error + alert list" where
  "collect_alerts health_data safety_data reminder_data =
     (let alerts0 = (case health_data of None \<Rightarrow> [] | Some df \<Rightarrow> generate_health_alerts df)
      in case (case safety_data of None \<Rightarrow> Inr [] | Some df \<Rightarrow> generate_safety_alerts df) of
           Inl e \<Rightarrow> Inl e
         | Inr safety_alerts \<Rightarrow>
             Inr (alerts0 @ safety_alerts
                  @ (case reminder_data of None \<Rightarrow> [] | Some df \<Rightarrow> generate_reminder_alerts df)))"

definition generate_alerts ::
  "health_row frame option \<Rightarrow> safety_row frame option \<Rightarrow> reminder_row frame option
   \<Rightarrow> error + alert list" where
  "generate_alerts health_data safety_data reminder_data =
     (case collect_alerts health_data safety_data reminder_data of
        Inl e \<Rightarrow> Inl e
      | Inr alerts \<Rightarrow> sort_by_timestamp_reverse alerts)"

section \<open>The record normaliser (\<open>data_processor.py\<close>)\<close>

definition ns_per_second :: int where
  "ns_per_second = 1000000000"

definition ns_per_hour :: int where
  "ns_per_hour = 3600 * ns_per_second"

definition ns_per_day :: int where
  "ns_per_day = 24 * ns_per_hour"

text \<open>
  \<open>pd.to_datetime\<close> leaves an instant as it is and parses a text; the parser of the
  library is the parameter \<open>parse\<close>, and a text it rejects raises \<open>ValueError\<close>.
\<close>

fun to_datetime :: "(string \<Rightarrow> int option) \<Rightarrow> stamp \<Rightarrow> error + stamp" where
  "to_datetime parse (Ts t) = Inr (Ts t)"
| "to_datetime parse (RawTs s) = (case parse s of None \<Rightarrow> Inl ValueError | Some t \<Rightarrow> Inr (Ts t))"

text \<open>The accessor \<open>.dt\<close> exists on a column of instants only.\<close>

fun dt_date :: "stamp \<Rightarrow> error + int" where
  "dt_date (Ts t) = Inr (t div ns_per_day)"
| "dt_date (RawTs s) = Inl AttributeError"

fun dt_hour :: "stamp \<Rightarrow> error + int" where
  "dt_hour (Ts t) = Inr ((t div ns_per_hour) mod 24)"
| "dt_hour (RawTs s) = Inl AttributeError"

text \<open>Monday is day 0; the epoch fell on a Thursday.\<close>

fun dt_dayofweek :: "stamp \<Rightarrow> error + int" where
  "dt_dayofweek (Ts t) = Inr ((t div ns_per_day + 3) mod 7)"
| "dt_dayofweek (RawTs s) = Inl AttributeError"

text \<open>Reading a column that the frame may lack.\<close>

fun col :: "'a option \<Rightarrow> error + 'a" where
  "col None = Inl KeyError"
| "col (Some v) = Inr v"

text \<open>\<open>Series.map({'Yes': True, 'No': False})\<close>: a value that is no key of the
  dictionary becomes \<open>nan\<close>.\<close>

fun yes_no_map :: "cell \<Rightarrow> cell" where
  "yes_no_map (PyStr s) =
     (if s = ''Yes'' then PyBool True else if s = ''No'' then PyBool False else PyNaN)"
| "yes_no_map (PyInt i) = PyNaN"
| "yes_no_map (PyBool b) = PyNaN"
| "yes_no_map (PyFloat neg m e) = PyNaN"
| "yes_no_map PyNaN = PyNaN"

text \<open>
  \<open>Series.fillna(0)\<close>: the fill value takes the type of the column. A column whose cells
  are all floats or missing is a column of floats, which is how pandas reads a numeric
  column with gaps, and the gaps become \<open>0.0\<close>; in a column of any other content they
  become the integer \<open>0\<close>.
\<close>

fun is_float :: "cell \<Rightarrow> bool" where
  "is_float (PyFloat neg m e) = True"
| "is_float PyNaN = True"
| "is_float (PyStr s) = False"
| "is_float (PyInt i) = False"
| "is_float (PyBool b) = False"

definition fill_value :: "cell list \<Rightarrow> cell" where
  "fill_value column = (if list_all is_float column then PyFloat False 0 0 else PyInt 0)"

definition fillna :: "cell \<Rightarrow> cell \<Rightarrow> cell" where
  "fillna v c = (if c = PyNaN then v else c)"

text \<open>The first two statements of the three normalisers.\<close>

definition set_timestamp_h :: "(string \<Rightarrow> int option) \<Rightarrow> health_row \<Rightarrow> error + health_row" where
  "set_timestamp_h parse row =
     bindE (to_datetime parse (h_Timestamp row)) (\<lambda>t. Inr (row\<lparr>h_Timestamp := t\<rparr>))"

definition set_date_h :: "health_row \<Rightarrow> error + health_row" where
  "set_date_h row = bindE (dt_date (h_Timestamp row)) (\<lambda>d. Inr (row\<lparr>h_Date := Some d\<rparr>))"

definition set_timestamp_s :: "(string \<Rightarrow> int option) \<Rightarrow> safety_row \<Rightarrow> error + safety_row" where
  "set_timestamp_s parse row =
     bindE (to_datetime parse (s_Timestamp row)) (\<lambda>t. Inr (row\<lparr>s_Timestamp := t\<rparr>))"

definition set_date_s :: "safety_row \<Rightarrow> error + safety_row" where
  "set_date_s row = bindE (dt_date (s_Timestamp row)) (\<lambda>d. Inr (row\<lparr>s_Date := Some d\<rparr>))"

definition set_timestamp_r :: "(string \<Rightarrow> int option) \<Rightarrow> reminder_row \<Rightarrow> error + reminder_row" where
  "set_timestamp_r parse row =
     bindE (to_datetime parse (r_Timestamp row)) (\<lambda>t. Inr (row\<lparr>r_Timestamp := t\<rparr>))"

definition set_date_r :: "reminder_row \<Rightarrow> error + reminder_row" where
  "set_date_r row = bindE (dt_date (r_Timestamp row)) (\<lambda>d. Inr (row\<lparr>r_Date := Some d\<rparr>))"

subsection \<open>Health records\<close>

text \<open>
  \<open>.str\<close> raises \<open>AttributeError\<close> on a column that holds rows but no text at all (pandas
  gives it a numeric type). \<open>astype(int)\<close> converts the column \<open>Systolic\<close> and then the
  column \<open>Diastolic\<close>, each in row order.
\<close>

definition set_extracted :: "health_row \<Rightarrow> health_row" where
  "set_extracted row =
     (let groups = str_extract (h_Blood_Pressure row)
      in row\<lparr>h_Systolic := Some (fst groups), h_Diastolic := Some (snd groups)\<rparr>)"

definition cast_systolic :: "health_row \<Rightarrow> error + health_row" where
  "cast_systolic row =
     bindE (col (h_Systolic row)) (\<lambda>v. bindE (astype_int v) (\<lambda>i. Inr (row\<lparr>h_Systolic := Some i\<rparr>)))"

definition cast_diastolic :: "health_row \<Rightarrow> error + health_row" where
  "cast_diastolic row =
     bindE (col (h_Diastolic row)) (\<lambda>v. bindE (astype_int v) (\<lambda>i. Inr (row\<lparr>h_Diastolic := Some i\<rparr>)))"

definition set_spo2 :: "health_row \<Rightarrow> error + health_row" where
  "set_spo2 row = bindE (astype_int (h_Oxygen_Saturation row)) (\<lambda>i. Inr (row\<lparr>h_SpO2 := Some i\<rparr>))"

definition process_health_data ::
  "(string \<Rightarrow> int option) \<Rightarrow> health_row frame \<Rightarrow> error + health_row frame" where
  "process_health_data parse df =
     bindE (map_rows (set_timestamp_h parse) df) (\<lambda>df.
     bindE (map_rows set_date_h df) (\<lambda>df.
     if df \<noteq> [] \<and> list_all (\<lambda>(idx, row). h_Blood_Pressure row = NoTxt) df
     then Inl AttributeError
     else bindE (map_rows cast_systolic (map (\<lambda>(idx, row). (idx, set_extracted row)) df)) (\<lambda>df.
          bindE (map_rows cast_diastolic df) (\<lambda>df.
          map_rows set_spo2 df))))"

subsection \<open>Safety records\<close>

definition normalise_safety_row :: "cell \<Rightarrow> safety_row \<Rightarrow> safety_row" where
  "normalise_safety_row zero row =
     row\<lparr> s_Inactivity_Duration := fillna zero (s_Inactivity_Duration row),
          s_Fall_Detected := yes_no_map (s_Fall_Detected row),
          s_Alert_Triggered := yes_no_map (s_Alert_Triggered row),
          s_Caregiver_Notified := yes_no_map (s_Caregiver_Notified row) \<rparr>"

definition process_safety_data ::
  "(string \<Rightarrow> int option) \<Rightarrow> safety_row frame \<Rightarrow> error + safety_row frame" where
  "process_safety_data parse df =
     bindE (map_rows (set_timestamp_s parse) df) (\<lambda>df.
     bindE (map_rows set_date_s df) (\<lambda>df.
     let zero = fill_value (map (\<lambda>(idx, row). s_Inactivity_Duration row) df)
     in Inr (map (\<lambda>(idx, row). (idx, normalise_safety_row zero row)) df)))"

subsection \<open>Reminder records\<close>

text \<open>
  \<open>pd.to_datetime(..., format='%H:%M:%S').dt.time\<close>: a cell that is not a text is turned
  into text by \<open>str\<close> first; the parser for the format is the parameter \<open>parse_time\<close>.
\<close>

definition to_time :: "(string \<Rightarrow> (nat \<times> nat \<times> nat) option) \<Rightarrow> tod \<Rightarrow> error + (nat \<times> nat \<times> nat)" where
  "to_time parse_time v =
     (case parse_time (str_tod v) of None \<Rightarrow> Inl ValueError | Some hms \<Rightarrow> Inr hms)"

definition set_scheduled_time ::
  "(string \<Rightarrow> (nat \<times> nat \<times> nat) option) \<Rightarrow> reminder_row \<Rightarrow> error + reminder_row" where
  "set_scheduled_time parse_time row =
     bindE (to_time parse_time (r_Scheduled_Time row))
       (\<lambda>(h, m, s). Inr (row\<lparr>r_Scheduled_Time := TimeOfDay h m s\<rparr>))"

definition normalise_reminder_row :: "reminder_row \<Rightarrow> reminder_row" where
  "normalise_reminder_row row =
     row\<lparr> r_Reminder_Sent := yes_no_map (r_Reminder_Sent row),
          r_Acknowledged := yes_no_map (r_Acknowledged row) \<rparr>"

definition process_reminder_data ::
  "(string \<Rightarrow> int option) \<Rightarrow> (string \<Rightarrow> (nat \<times> nat \<times> nat) option)
   \<Rightarrow> reminder_row frame \<Rightarrow> error + reminder_row frame" where
  "process_reminder_data parse parse_time df =
     bindE (map_rows (set_timestamp_r parse) df) (\<lambda>df.
     bindE (map_rows set_date_r df) (\<lambda>df.
     bindE (map_rows (set_scheduled_time parse_time) df) (\<lambda>df.
     Inr (map (\<lambda>(idx, row). (idx, normalise_reminder_row row)) df))))"

section \<open>The risk predictors (\<open>predictive_models.py\<close>)\<close>

text \<open>
  The state of a predictor object. scikit-learn and the encoding of the feature columns
  that feeds it are outside the repository: every operation takes the library's part as
  a parameter, \<open>fit_eval\<close> for splitting, fitting and scoring (it returns the fitted
  model with its accuracy, or the exception with the value that \<open>self.model\<close> is left
  with) and \<open>predict_proba\<close> for the class probabilities of every row.
\<close>

record 'm predictor =
  model :: "'m option"
  features :: "string list option"
  trained :: bool

definition init :: "'m predictor" where
  "init = \<lparr> model = None, features = None, trained = False \<rparr>"

text \<open>The dictionaries that \<open>train\<close> returns: accuracy, or the exception, each with
  model type and feature count; or the bare error message.\<close>

datatype train_result =
    Accuracy rat string nat
  | TrainError error string nat
  | NoData string

text \<open>
  The frame that a prediction returns: a copy of the input rows, each with the columns it
  gained, its score and its level; or the one row that the code makes up for an empty
  input, whose columns are not those of the schema.
\<close>

record 'r scored =
  source :: 'r
  added :: "string list"
  score :: rat
  level :: cell

datatype pvalue = PCell cell | PText text_cell | PStamp stamp | PTimeOf stamp

datatype 'r prediction = Augmented "'r scored frame" | Placeholder "(string \<times> pvalue) list"

definition sentinel :: "'r frame \<Rightarrow> 'r scored frame" where
  "sentinel df =
     map (\<lambda>(idx, row). (idx, \<lparr> source = row, added = [], score = 0, level = PyStr ''Low'' \<rparr>)) df"

definition scored_rows ::
  "rat list \<Rightarrow> string list \<Rightarrow> 'r frame \<Rightarrow> rat list list \<Rightarrow> 'r scored frame" where
  "scored_rows bins missing df probabilities =
     map (\<lambda>((idx, row), p).
            (idx, \<lparr> source = row, added = missing, score = p ! 1,
                    level = pd_cut bins [''Low'', ''Medium'', ''High''] (p ! 1) \<rparr>))
         (zip df probabilities)"

text \<open>
  The end of the three prediction methods: \<open>probabilities[:, 1]\<close> needs a second
  column, and the column assignment needs one probability row per frame row; any
  exception inside \<open>try\<close> gives the sentinel on a copy of the input.
\<close>

definition score_or_sentinel ::
  "rat list \<Rightarrow> string list \<Rightarrow> 'r frame \<Rightarrow> 'r frame \<Rightarrow> error + rat list list \<Rightarrow> 'r prediction" where
  "score_or_sentinel bins missing new_data processed_data result =
     (case result of
        Inl e \<Rightarrow> Augmented (sentinel new_data)
      | Inr probabilities \<Rightarrow>
          if length probabilities = length processed_data
             \<and> list_all (\<lambda>p. length p \<ge> 2) probabilities
          then Augmented (scored_rows bins missing processed_data probabilities)
          else Augmented (sentinel new_data))"

subsection \<open>Health risk\<close>

record merged_row =
  m_Device_ID :: string
  m_Timestamp_health :: "stamp option"
  m_Heart_Rate :: cell
  m_Systolic :: cell
  m_Diastolic :: cell
  m_Glucose_Levels :: cell
  m_SpO2 :: cell
  m_Health_Alert :: cell
  m_Date :: int
  m_Timestamp_safety :: "stamp option"
  m_Movement_Activity :: text_cell
  m_Fall_Detected :: cell
  m_Impact_Force_Level :: text_cell
  m_Safety_Alert :: cell
  m_Timestamp :: "stamp option"
  m_Reminder_Type :: text_cell
  m_Reminder_Sent :: cell
  m_Acknowledged :: cell
  m_Has_Health_Alert :: cell
  m_Has_Safety_Alert :: cell
  m_Has_Any_Alert :: cell
  m_Risk :: "cell option"

definition merged_columns :: "string list" where
  "merged_columns =
     [''Device-ID/User-ID'', ''Timestamp_health'', ''Heart Rate'', ''Systolic'', ''Diastolic'',
      ''Glucose Levels'', ''SpO2'', ''Health Alert'', ''Date'', ''Timestamp_safety'',
      ''Movement Activity'', ''Fall Detected (Yes/No)'', ''Impact Force Level'', ''Safety Alert'',
      ''Timestamp'', ''Reminder Type'', ''Reminder Sent (Yes/No)'', ''Acknowledged (Yes/No)'',
      ''Has Health Alert'', ''Has Safety Alert'', ''Has Any Alert'']"

definition health_features :: "string list" where
  "health_features =
     [''Heart Rate'', ''Systolic'', ''Diastolic'', ''Glucose Levels'', ''SpO2'',
      ''Movement Activity'', ''Fall Detected (Yes/No)'',
      ''Reminder Sent (Yes/No)'', ''Acknowledged (Yes/No)'']"

text \<open>
  \<open>preprocess_data\<close> returns the object it was given: the result is the new state of the
  predictor, the caller's frame after the call, and the returned frame.
\<close>

definition preprocess_data_health ::
  "(string list \<Rightarrow> string list \<Rightarrow> 'm) \<Rightarrow> 'm predictor \<Rightarrow> merged_row frame
   \<Rightarrow> 'm predictor \<times> merged_row frame \<times> merged_row frame" where
  "preprocess_data_health new_pipeline self merged_data =
     (let feats = filter (\<lambda>f. f \<in> set merged_columns) health_features;
          merged_data = map (\<lambda>(idx, row). (idx, row\<lparr>m_Risk := Some (m_Has_Any_Alert row)\<rparr>))
                            merged_data;
          categorical_features = filter (\<lambda>f. f \<in> set merged_columns) [''Movement Activity''];
          numerical_features = filter (\<lambda>f. f \<notin> set categorical_features) feats
      in (self\<lparr> features := Some feats,
                model := Some (new_pipeline numerical_features categorical_features) \<rparr>,
          merged_data, merged_data))"

definition train_health ::
  "(string list \<Rightarrow> string list \<Rightarrow> 'm)
   \<Rightarrow> ('m option \<Rightarrow> string list \<Rightarrow> merged_row frame \<Rightarrow> (error \<times> 'm option) + ('m \<times> rat))
   \<Rightarrow> 'm predictor \<Rightarrow> merged_row frame
   \<Rightarrow> error + ('m predictor \<times> merged_row frame \<times> train_result)" where
  "train_health new_pipeline fit_eval self merged_data =
     (case preprocess_data_health new_pipeline self merged_data of
        (self, merged_data, data) \<Rightarrow>
          bindE (col (features self)) (\<lambda>feats.
          case fit_eval (model self) feats data of
            Inr (m, accuracy) \<Rightarrow>
              Inr (self\<lparr>model := Some m, trained := True\<rparr>, merged_data,
                   Accuracy accuracy ''Random Forest'' (length feats))
          | Inl (e, m) \<Rightarrow>
              Inr (self\<lparr>model := m\<rparr>, merged_data,
                   TrainError e ''Random Forest'' (length feats))))"

definition health_columns :: "health_row frame \<Rightarrow> string list" where
  "health_columns df =
     [''Device-ID/User-ID'', ''Timestamp'', ''Heart Rate'',
      ''Heart Rate Below/Above Threshold (Yes/No)'', ''Blood Pressure'',
      ''Blood Pressure Below/Above Threshold (Yes/No)'', ''Glucose Levels'',
      ''Glucose Levels Below/Above Threshold (Yes/No)'', ''Oxygen Saturation (SpO2%)'',
      ''SpO2 Below Threshold (Yes/No)'', ''Alert Triggered (Yes/No)'',
      ''Caregiver Notified (Yes/No)'']
     @ (if list_all (\<lambda>(idx, row). h_Date row \<noteq> None) df then [''Date''] else [])
     @ (if list_all (\<lambda>(idx, row). h_Systolic row \<noteq> None) df then [''Systolic''] else [])
     @ (if list_all (\<lambda>(idx, row). h_Diastolic row \<noteq> None) df then [''Diastolic''] else [])
     @ (if list_all (\<lambda>(idx, row). h_SpO2 row \<noteq> None) df then [''SpO2''] else [])"

definition health_placeholder :: "stamp \<Rightarrow> (string \<times> pvalue) list" where
  "health_placeholder now =
     [(''Device-ID/User-ID'', PText (Txt ''USER001'')),
      (''Timestamp'', PStamp now),
      (''Heart Rate'', PCell (PyInt 70)),
      (''Blood Pressure'', PText (Txt ''120/80'')),
      (''Systolic'', PCell (PyInt 120)),
      (''Diastolic'', PCell (PyInt 80)),
      (''Glucose Levels'', PCell (PyInt 100)),
      (''Oxygen Saturation (SpO2%)'', PCell (PyInt 98)),
      (''SpO2'', PCell (PyInt 98)),
      (''Heart Rate Below/Above Threshold (Yes/No)'', PCell (PyBool False)),
      (''Blood Pressure Threshold (Yes/No)'', PCell (PyBool False)),
      (''Glucose Levels Below/Above Threshold (Yes/No)'', PCell (PyBool False)),
      (''SpO2 Below Threshold (Yes/No)'', PCell (PyBool False))]"

text \<open>The features that the input lacks are added as \<open>nan\<close> columns, here in the order of
  the feature list.\<close>

definition predict_risk ::
  "('m \<Rightarrow> string list \<Rightarrow> health_row frame \<Rightarrow> error + rat list list)
   \<Rightarrow> stamp \<Rightarrow> 'm predictor \<Rightarrow> health_row frame \<Rightarrow> health_row prediction" where
  "predict_risk predict_proba now self new_data =
     (if \<not> trained self \<or> model self = None
      then (if new_data \<noteq> []
            then Augmented (sentinel new_data)
            else Placeholder (health_placeholder now
                   @ [(''Risk_Score'', PCell (PyInt 0)), (''Risk_Level'', PCell (PyStr ''Low''))]))
      else case (model self, features self) of
             (Some m, Some feats) \<Rightarrow>
               (let missing = filter (\<lambda>f. f \<notin> set (health_columns new_data)) feats
                in score_or_sentinel [0, 3 / 10, 7 / 10, 1] missing new_data new_data
                     (predict_proba m feats new_data))
           | _ \<Rightarrow> Augmented (sentinel new_data))"

subsection \<open>Fall risk\<close>

text \<open>\<open>Series.unique()\<close>: the values in the order of their first appearance.\<close>

definition unique :: "'a list \<Rightarrow> 'a list" where
  "unique xs = rev (remdups (rev xs))"

text \<open>\<open>safety_data.loc[idx, 'Next_Day_Fall'] = True\<close>: every row that carries the label
  \<open>idx\<close> is set.\<close>

definition loc_set_next_day_fall :: "nat \<Rightarrow> safety_row frame \<Rightarrow> safety_row frame" where
  "loc_set_next_day_fall idx df =
     map (\<lambda>(j, r). if j = idx then (j, r\<lparr>s_Next_Day_Fall := Some True\<rparr>) else (j, r)) df"

text \<open>The mask of the window: later than the row itself, and no later than its
  \<open>Next_Day_Timestamp\<close>, one day after it.\<close>

definition in_next_day :: "safety_row \<Rightarrow> safety_row \<Rightarrow> bool" where
  "in_next_day row r =
     (the_Ts (s_Timestamp r) > the_Ts (s_Timestamp row)
      \<and> the_Ts (s_Timestamp r) \<le> the_Ts (s_Timestamp row) + ns_per_day)"

fun label_rows ::
  "safety_row frame \<Rightarrow> safety_row frame \<Rightarrow> safety_row frame \<Rightarrow> safety_row frame" where
  "label_rows device_data [] safety_data = safety_data"
| "label_rows device_data ((idx, row) # rest) safety_data =
     (let next_day = filter (\<lambda>(j, r). in_next_day row r) device_data
      in label_rows device_data rest
           (if length next_day > 0 \<and> list_ex (\<lambda>(j, r). truthy (s_Fall_Detected r)) next_day
            then loc_set_next_day_fall idx safety_data
            else safety_data))"

fun label_devices :: "string list \<Rightarrow> safety_row frame \<Rightarrow> safety_row frame" where
  "label_devices [] safety_data = safety_data"
| "label_devices (device # rest) safety_data =
     (let device_data = filter (\<lambda>(j, r). s_Device_ID r = device) safety_data
      in label_devices rest (label_rows device_data device_data safety_data))"

definition set_hour_s :: "safety_row \<Rightarrow> error + safety_row" where
  "set_hour_s row = bindE (dt_hour (s_Timestamp row)) (\<lambda>h. Inr (row\<lparr>s_Hour := Some h\<rparr>))"

definition set_dayofweek_s :: "safety_row \<Rightarrow> error + safety_row" where
  "set_dayofweek_s row =
     bindE (dt_dayofweek (s_Timestamp row)) (\<lambda>d. Inr (row\<lparr>s_DayOfWeek := Some d\<rparr>))"

text \<open>
  The two time columns are written into the frame that the caller passed; \<open>sort_values\<close>
  then makes a new frame, which receives the labels. The result is the new state of the
  predictor, the caller's frame after the call, and the returned frame (\<open>None\<close> for no
  data).
\<close>

definition preprocess_data_fall ::
  "'m predictor \<Rightarrow> safety_row frame option
   \<Rightarrow> error + ('m predictor \<times> safety_row frame option \<times> safety_row frame option)" where
  "preprocess_data_fall self safety_data =
     (case safety_data of
        None \<Rightarrow> Inr (self, None, None)
      | Some df \<Rightarrow>
          if length df = 0 then Inr (self, Some df, None)
          else
            bindE (map_rows set_hour_s df) (\<lambda>df.
            bindE (map_rows set_dayofweek_s df) (\<lambda>df.
            (let sorted = sort_key (\<lambda>(idx, row). (s_Device_ID row, the_Ts (s_Timestamp row))) df;
                 safety_data = map (\<lambda>(idx, row). (idx, row\<lparr>s_Next_Day_Fall := Some False\<rparr>)) sorted;
                 safety_data = label_devices (unique (map (\<lambda>(idx, row). s_Device_ID row) safety_data))
                                 safety_data
             in Inr (self\<lparr>features := Some [''Hour'', ''DayOfWeek'', ''Movement Activity'', ''Location'']\<rparr>,
                     Some df, Some safety_data)))))"

definition train_fall ::
  "('m option \<Rightarrow> string list \<Rightarrow> safety_row frame \<Rightarrow> (error \<times> 'm option) + ('m \<times> rat))
   \<Rightarrow> (string list \<Rightarrow> safety_row frame \<Rightarrow> nat)
   \<Rightarrow> 'm predictor \<Rightarrow> safety_row frame option
   \<Rightarrow> error + ('m predictor \<times> safety_row frame option \<times> train_result)" where
  "train_fall fit_eval encoded_width self safety_data =
     bindE (preprocess_data_fall self safety_data) (\<lambda>(self, safety_data, data).
       case data of
         None \<Rightarrow> Inr (self, safety_data, NoData ''No valid safety data for training'')
       | Some data \<Rightarrow>
           bindE (col (features self)) (\<lambda>feats.
           case fit_eval (model self) feats data of
             Inr (m, accuracy) \<Rightarrow>
               Inr (self\<lparr>model := Some m, trained := True\<rparr>, safety_data,
                    Accuracy accuracy ''Random Forest'' (encoded_width feats data))
           | Inl (e, m) \<Rightarrow>
               Inr (self\<lparr>model := m\<rparr>, safety_data, TrainError e ''Random Forest'' 0)))"

definition fall_placeholder :: "stamp \<Rightarrow> (string \<times> pvalue) list" where
  "fall_placeholder now =
     [(''Device-ID/User-ID'', PText (Txt ''USER001'')),
      (''Timestamp'', PStamp now),
      (''Movement Activity'', PText (Txt ''Walking'')),
      (''Fall Detected (Yes/No)'', PCell (PyBool False)),
      (''Impact Force Level'', PText (Txt ''None'')),
      (''Post Fall Inactivity (minutes)'', PCell (PyInt 0)),
      (''Location'', PText (Txt ''Living Room''))]"

definition predict_fall_risk ::
  "('m \<Rightarrow> string list \<Rightarrow> safety_row frame \<Rightarrow> error + rat list list)
   \<Rightarrow> stamp \<Rightarrow> 'm predictor \<Rightarrow> safety_row frame \<Rightarrow> safety_row prediction" where
  "predict_fall_risk predict_proba now self new_data =
     (if \<not> trained self \<or> model self = None
      then (if new_data \<noteq> []
            then Augmented (sentinel new_data)
            else Placeholder (fall_placeholder now
                   @ [(''Fall_Risk_Score'', PCell (PyInt 0)),
                      (''Fall_Risk_Level'', PCell (PyStr ''Low''))]))
      else case (model self, features self) of
             (Some m, Some feats) \<Rightarrow>
               (case bindE (map_rows set_hour_s new_data) (map_rows set_dayofweek_s) of
                  Inl e \<Rightarrow> Augmented (sentinel new_data)
                | Inr processed_data \<Rightarrow>
                    score_or_sentinel [0, 3 / 10, 6 / 10, 1] [] new_data processed_data
                      (predict_proba m feats processed_data))
           | _ \<Rightarrow> Augmented (sentinel new_data))"

subsection \<open>Reminder effectiveness\<close>

text \<open>\<open>pd.get_dummies(column, prefix='Type')\<close>: one boolean column for every text that
  occurs in the column, the levels in sorted order; a missing cell has no level.\<close>

definition type_levels :: "reminder_row frame \<Rightarrow> string list" where
  "type_levels df =
     sort (remdups (concat (map (\<lambda>(idx, row). case r_Reminder_Type row of
                                                  Txt s \<Rightarrow> [s] | NoTxt \<Rightarrow> []) df)))"

definition type_dummies :: "string list \<Rightarrow> reminder_row \<Rightarrow> (string \<times> bool) list" where
  "type_dummies levels row = map (\<lambda>l. (''Type_'' @ l, r_Reminder_Type row = Txt l)) levels"

definition set_hour_r ::
  "(string \<Rightarrow> (nat \<times> nat \<times> nat) option) \<Rightarrow> reminder_row \<Rightarrow> error + reminder_row" where
  "set_hour_r parse_time row =
     bindE (to_time parse_time (r_Scheduled_Time row))
       (\<lambda>(h, m, s). Inr (row\<lparr>r_Hour := Some (int h)\<rparr>))"

definition set_dayofweek_r :: "reminder_row \<Rightarrow> error + reminder_row" where
  "set_dayofweek_r row =
     bindE (dt_dayofweek (r_Timestamp row)) (\<lambda>d. Inr (row\<lparr>r_DayOfWeek := Some d\<rparr>))"

definition reminder_features :: "string list" where
  "reminder_features =
     [''Hour'', ''DayOfWeek'', ''Type_Medication'', ''Type_Appointment'',
      ''Type_Exercise'', ''Type_Hydration'']"

definition reminder_columns :: "string list \<Rightarrow> string list" where
  "reminder_columns levels =
     [''Device-ID/User-ID'', ''Timestamp'', ''Reminder Type'', ''Scheduled Time'',
      ''Reminder Sent (Yes/No)'', ''Acknowledged (Yes/No)'', ''Hour'', ''DayOfWeek'']
     @ map (\<lambda>l. ''Type_'' @ l) levels"

text \<open>
  The two time columns are written into the frame that the caller passed; \<open>pd.concat\<close>
  then makes a new frame, which receives the dummy columns and the target.
\<close>

definition preprocess_data_reminder ::
  "(string \<Rightarrow> (nat \<times> nat \<times> nat) option) \<Rightarrow> 'm predictor \<Rightarrow> reminder_row frame option
   \<Rightarrow> error + ('m predictor \<times> reminder_row frame option \<times> reminder_row frame option)" where
  "preprocess_data_reminder parse_time self reminder_data =
     (case reminder_data of
        None \<Rightarrow> Inr (self, None, None)
      | Some df \<Rightarrow>
          if length df = 0 then Inr (self, Some df, None)
          else
            bindE (map_rows (set_hour_r parse_time) df) (\<lambda>df.
            bindE (map_rows set_dayofweek_r df) (\<lambda>df.
            (let levels = type_levels df;
                 reminder_data =
                   map (\<lambda>(idx, row).
                          (idx, row\<lparr> r_Type_dummies := Some (type_dummies levels row),
                                      r_Effective := Some (r_Acknowledged row) \<rparr>)) df;
                 feats = filter (\<lambda>f. f \<in> set (reminder_columns levels @ [''Effective'']))
                           reminder_features
             in Inr (self\<lparr>features := Some feats\<rparr>, Some df, Some reminder_data)))))"

definition train_reminder ::
  "(string \<Rightarrow> (nat \<times> nat \<times> nat) option)
   \<Rightarrow> ('m option \<Rightarrow> string list \<Rightarrow> reminder_row frame \<Rightarrow> (error \<times> 'm option) + ('m \<times> rat))
   \<Rightarrow> 'm predictor \<Rightarrow> reminder_row frame option
   \<Rightarrow> error + ('m predictor \<times> reminder_row frame option \<times> train_result)" where
  "train_reminder parse_time fit_eval self reminder_data =
     bindE (preprocess_data_reminder parse_time self reminder_data) (\<lambda>(self, reminder_data, data).
       case data of
         None \<Rightarrow> Inr (self, reminder_data, NoData ''No valid reminder data for training'')
       | Some data \<Rightarrow>
           (let data = filter (\<lambda>(idx, row). eq_bool (r_Reminder_Sent row) True) data
            in if length data = 0
               then Inr (self, reminder_data, NoData ''No sent reminders in the data'')
               else
                 bindE (col (features self)) (\<lambda>feats.
                 case fit_eval (model self) feats data of
                   Inr (m, accuracy) \<Rightarrow>
                     Inr (self\<lparr>model := Some m, trained := True\<rparr>, reminder_data,
                          Accuracy accuracy ''Random Forest'' (length feats))
                 | Inl (e, m) \<Rightarrow>
                     Inr (self\<lparr>model := m\<rparr>, reminder_data,
                          TrainError e ''Random Forest'' (length feats)))))"

definition reminder_placeholder :: "stamp \<Rightarrow> stamp \<Rightarrow> (string \<times> pvalue) list" where
  "reminder_placeholder now later =
     [(''Device-ID/User-ID'', PText (Txt ''USER001'')),
      (''Timestamp'', PStamp now),
      (''Reminder Type'', PText (Txt ''Medication'')),
      (''Scheduled Time'', PTimeOf later),
      (''Reminder Sent (Yes/No)'', PCell (PyBool True)),
      (''Acknowledged (Yes/No)'', PCell (PyBool False))]"

text \<open>The clock is read twice for the made-up row; a feature that the processed frame
  lacks is added as a column of zeros.\<close>

definition predict_effectiveness ::
  "('m \<Rightarrow> string list \<Rightarrow> reminder_row frame \<Rightarrow> error + rat list list)
   \<Rightarrow> (string \<Rightarrow> (nat \<times> nat \<times> nat) option) \<Rightarrow> stamp \<Rightarrow> stamp
   \<Rightarrow> 'm predictor \<Rightarrow> reminder_row frame \<Rightarrow> reminder_row prediction" where
  "predict_effectiveness predict_proba parse_time now later self new_data =
     (if \<not> trained self \<or> model self = None
      then (if new_data \<noteq> []
            then Augmented (sentinel new_data)
            else Placeholder (reminder_placeholder now later
                   @ [(''Effectiveness_Score'', PCell (PyInt 0)),
                      (''Effectiveness_Level'', PCell (PyStr ''Low''))]))
      else case (model self, features self) of
             (Some m, Some feats) \<Rightarrow>
               (case bindE (map_rows (set_hour_r parse_time) new_data) (map_rows set_dayofweek_r) of
                  Inl e \<Rightarrow> Augmented (sentinel new_data)
                | Inr df \<Rightarrow>
                    (let levels = type_levels df;
                         processed_data =
                           map (\<lambda>(idx, row). (idx, row\<lparr>r_Type_dummies := Some (type_dummies levels row)\<rparr>)) df;
                         missing = filter (\<lambda>f. f \<notin> set (reminder_columns levels)) feats
                     in score_or_sentinel [0, 3 / 10, 7 / 10, 1] missing new_data processed_data
                          (predict_proba m feats processed_data)))
           | _ \<Rightarrow> Augmented (sentinel new_data))"

section \<open>Notions of the specification and sample records\<close>

text \<open>The number of threshold flags of a health event that are \<open>'Yes'\<close>.\<close>

definition threshold_flags :: "health_row \<Rightarrow> nat" where
  "threshold_flags row =
     length (filter (\<lambda>c. c = PyStr ''Yes'')
       [h_Heart_Rate_Threshold row, h_Blood_Pressure_Threshold row,
        h_Glucose_Threshold row, h_SpO2_Threshold row])"

text \<open>A health event with two breached thresholds, and one with a single breach.\<close>

definition health_event_U1 :: health_row where
  "health_event_U1 =
     \<lparr> h_Device_ID = ''U1'', h_Timestamp = Ts 0,
       h_Heart_Rate = PyInt 180, h_Heart_Rate_Threshold = PyStr ''Yes'',
       h_Blood_Pressure = Txt ''150/95'', h_Blood_Pressure_Threshold = PyStr ''Yes'',
       h_Glucose_Levels = PyInt 95, h_Glucose_Threshold = PyStr ''No'',
       h_Oxygen_Saturation = PyInt 98, h_SpO2_Threshold = PyStr ''No'',
       h_Alert_Triggered = PyStr ''Yes'', h_Caregiver_Notified = PyStr ''No'',
       h_Date = None, h_Systolic = None, h_Diastolic = None, h_SpO2 = None \<rparr>"

definition health_event_U3 :: health_row where
  "health_event_U3 =
     health_event_U1 \<lparr> h_Device_ID := ''U3'', h_Timestamp := Ts 60,
                       h_Blood_Pressure_Threshold := PyStr ''No'' \<rparr>"

text \<open>A normalised fall event, and a raw one as the file holds it.\<close>

definition safety_event_U2 :: safety_row where
  "safety_event_U2 =
     \<lparr> s_Device_ID = ''U2'', s_Timestamp = Ts 120,
       s_Movement_Activity = Txt ''Walking'', s_Fall_Detected = PyBool True,
       s_Impact_Force_Level = Txt ''Low'', s_Inactivity_Duration = PyInt 45,
       s_Location = Txt ''Bathroom'', s_Alert_Triggered = PyBool True,
       s_Caregiver_Notified = PyBool True,
       s_Date = None, s_Hour = None, s_DayOfWeek = None, s_Next_Day_Fall = None \<rparr>"

definition safety_event_raw :: safety_row where
  "safety_event_raw =
     safety_event_U2 \<lparr> s_Fall_Detected := PyStr ''Yes'', s_Alert_Triggered := PyStr ''Yes'',
                       s_Caregiver_Notified := PyStr ''No'' \<rparr>"

text \<open>An unacknowledged medication reminder.\<close>

definition reminder_event_U4 :: reminder_row where
  "reminder_event_U4 =
     \<lparr> r_Device_ID = ''U4'', r_Timestamp = Ts 120,
       r_Reminder_Type = Txt ''Medication'', r_Scheduled_Time = TimeOfDay 8 30 0,
       r_Reminder_Sent = PyBool True, r_Acknowledged = PyBool False,
       r_Date = None, r_Hour = None, r_DayOfWeek = None,
       r_Type_dummies = None, r_Effective = None \<rparr>"

text \<open>
  The target of the fall risk model as the specification words it: some event of the
  same device, strictly later than the event and at most 24 hours later, is a fall.
\<close>

definition fall_within_next_day :: "safety_row frame \<Rightarrow> safety_row \<Rightarrow> bool" where
  "fall_within_next_day df row =
     list_ex (\<lambda>(j, r). s_Device_ID r = s_Device_ID row
                \<and> the_Ts (s_Timestamp row) < the_Ts (s_Timestamp r)
                \<and> the_Ts (s_Timestamp r) \<le> the_Ts (s_Timestamp row) + 24 * ns_per_hour
                \<and> truthy (s_Fall_Detected r)) df"

text \<open>A safety row with the two time columns that the fall risk predictor derives
  from its timestamp.\<close>

definition with_time_columns :: "safety_row \<Rightarrow> safety_row" where
  "with_time_columns row =
     row\<lparr> s_Hour := Some ((the_Ts (s_Timestamp row) div ns_per_hour) mod 24),
          s_DayOfWeek := Some ((the_Ts (s_Timestamp row) div ns_per_day + 3) mod 7) \<rparr>"

text \<open>A frame whose column \<open>Next_Day_Fall\<close> is given by a function of the index label,
  and the test that the inner loop makes for one row.\<close>

definition relabel :: "(nat \<Rightarrow> bool) \<Rightarrow> safety_row frame \<Rightarrow> safety_row frame" where
  "relabel L base = map (\<lambda>(j, r). (j, r\<lparr>s_Next_Day_Fall := Some (L j)\<rparr>)) base"

definition window_fall :: "safety_row frame \<Rightarrow> safety_row \<Rightarrow> bool" where
  "window_fall device_data row =
     list_ex (\<lambda>(j, r). in_next_day row r \<and> truthy (s_Fall_Detected r)) device_data"

text \<open>Three events of one device: at \<open>t0\<close> without a fall, two hours later with a fall,
  thirty hours later without one.\<close>

definition three_events :: "safety_row \<Rightarrow> string \<Rightarrow> int \<Rightarrow> nat \<Rightarrow> nat \<Rightarrow> nat \<Rightarrow> safety_row frame" where
  "three_events row device t0 i0 i1 i2 =
     [(i0, row\<lparr>s_Device_ID := device, s_Timestamp := Ts t0, s_Fall_Detected := PyBool False\<rparr>),
      (i1, row\<lparr>s_Device_ID := device, s_Timestamp := Ts (t0 + 2 * ns_per_hour),
               s_Fall_Detected := PyBool True\<rparr>),
      (i2, row\<lparr>s_Device_ID := device, s_Timestamp := Ts (t0 + 30 * ns_per_hour),
               s_Fall_Detected := PyBool False\<rparr>)]"

text \<open>The label that a returned frame gives to the row with index label \<open>idx\<close>.\<close>

definition next_day_fall_of :: "safety_row frame \<Rightarrow> nat \<Rightarrow> bool option" where
  "next_day_fall_of out idx = (case map_of out idx of None \<Rightarrow> None | Some r \<Rightarrow> s_Next_Day_Fall r)"

text \<open>
  A prediction that is the sentinel for its input: the rows of the input in order, each
  with score 0 and level \<open>'Low'\<close>; or, for an input without rows, the made-up row with
  score 0 and level \<open>'Low'\<close> in the two result columns.
\<close>

definition sentinel_prediction :: "string \<Rightarrow> string \<Rightarrow> 'r frame \<Rightarrow> 'r prediction \<Rightarrow> bool" where
  "sentinel_prediction score_column level_column new_data result =
     (case result of
        Augmented rows \<Rightarrow>
          new_data \<noteq> []
          \<and> map fst rows = map fst new_data
          \<and> map (\<lambda>(idx, r). source r) rows = map snd new_data
          \<and> list_all (\<lambda>(idx, r). score r = 0 \<and> level r = PyStr ''Low'') rows
      | Placeholder row \<Rightarrow>
          new_data = []
          \<and> map_of row score_column = Some (PCell (PyInt 0))
          \<and> map_of row level_column = Some (PCell (PyStr ''Low'')))"

text \<open>The scores and levels of the rows of a prediction.\<close>

fun scores_and_levels :: "'r prediction \<Rightarrow> (rat \<times> cell) list" where
  "scores_and_levels (Augmented rows) = map (\<lambda>(idx, r). (score r, level r)) rows"
| "scores_and_levels (Placeholder row) = []"

text \<open>A trained predictor, and a model that gives every row the probabilities 1 and 0 of
  the two classes, as a forest does whose trees all vote for the first class.\<close>

definition trained_predictor :: "string list \<Rightarrow> unit predictor" where
  "trained_predictor feats = \<lparr> model = Some (), features = Some feats, trained = True \<rparr>"

definition all_trees_vote_no :: "unit \<Rightarrow> string list \<Rightarrow> 'r frame \<Rightarrow> error + rat list list" where
  "all_trees_vote_no m feats df = Inr (map (\<lambda>r. [1, 0]) df)"

text \<open>A row of the merged table, as \<open>merge_data_for_analysis\<close> builds it.\<close>

definition merged_event :: merged_row where
  "merged_event =
     \<lparr> m_Device_ID = ''U1'', m_Timestamp_health = Some (Ts 0),
       m_Heart_Rate = PyInt 180, m_Systolic = PyInt 150, m_Diastolic = PyInt 95,
       m_Glucose_Levels = PyInt 95, m_SpO2 = PyInt 98, m_Health_Alert = PyStr ''Yes'',
       m_Date = 0, m_Timestamp_safety = None, m_Movement_Activity = NoTxt,
       m_Fall_Detected = PyNaN, m_Impact_Force_Level = NoTxt, m_Safety_Alert = PyNaN,
       m_Timestamp = None, m_Reminder_Type = NoTxt, m_Reminder_Sent = PyNaN,
       m_Acknowledged = PyNaN, m_Has_Health_Alert = PyStr ''Yes'',
       m_Has_Safety_Alert = PyBool False, m_Has_Any_Alert = PyBool True,
       m_Risk = None \<rparr>"

text \<open>A parser for the scheduled times of the sample reminders.\<close>

definition parse_0830 :: "string \<Rightarrow> (nat \<times> nat \<times> nat) option" where
  "parse_0830 s = (if s = ''08:30:00'' then Some (8, 30, 0) else None)"

text \<open>A reminder as the file holds it, before normalisation.\<close>

definition reminder_event_raw :: reminder_row where
  "reminder_event_raw =
     reminder_event_U4 \<lparr> r_Scheduled_Time := RawTime ''08:30:00'',
                         r_Reminder_Sent := PyStr ''Yes'', r_Acknowledged := PyStr ''No'' \<rparr>"

text \<open>
  A blood pressure text that is of the form digits, slash, digits as a whole, as the
  specification words the pattern.
\<close>

definition is_bp_text :: "string \<Rightarrow> bool" where
  "is_bp_text s = (case match_here s of None \<Rightarrow> False | Some (g1, g2) \<Rightarrow> s = g1 @ ''/'' @ g2)"

text \<open>What the health normaliser does to one record, stage after stage.\<close>

definition normalise_health_row :: "(string \<Rightarrow> int option) \<Rightarrow> health_row \<Rightarrow> error + health_row" where
  "normalise_health_row parse row =
     bindE (set_timestamp_h parse row) (\<lambda>row.
     bindE (set_date_h row) (\<lambda>row.
     bindE (cast_systolic (set_extracted row)) (\<lambda>row.
     bindE (cast_diastolic row) set_spo2)))"

text \<open>A text of digits only, at least one.\<close>

definition digits_only :: "string \<Rightarrow> bool" where
  "digits_only s = (s \<noteq> [] \<and> list_all is_digit s)"

text \<open>The two numbers of the leftmost \<open>digits/digits\<close> part of a record's blood pressure,
  if its text has such a part.\<close>

definition bp_numbers :: "health_row \<Rightarrow> (int \<times> int) option" where
  "bp_numbers row =
     (case h_Blood_Pressure row of
        NoTxt \<Rightarrow> None
      | Txt s \<Rightarrow>
          (case re_search s of
             None \<Rightarrow> None
           | Some (g1, g2) \<Rightarrow> Some (int (nat_of_digits g1), int (nat_of_digits g2))))"

text \<open>A health record with a given blood pressure text.\<close>

definition bp_event :: "string \<Rightarrow> health_row" where
  "bp_event s = health_event_U1 \<lparr> h_Blood_Pressure := Txt s \<rparr>"

section \<open>Properties of the alert rule engine\<close>

lemma health_loop_eq: "health_loop rows acc = acc @ map (\<lambda>(idx, row). health_alert row) rows"
  by (induction rows arbitrary: acc) auto

lemma length_health_reasons: "length (health_reasons row) = threshold_flags row"
  by (simp add: health_reasons_def threshold_flags_def)

text \<open>
  Claim C1. For every health event whose alert-triggered flag is \<open>'Yes'\<close>,
  \<open>generate_health_alerts\<close> emits exactly one alert: the alerts are, in order, those of
  the triggered events, each with the device and timestamp of its event. The priority
  of the alert is Medium when exactly one of the four threshold flags of the event is
  \<open>'Yes'\<close>, and High when two or more are.
\<close>

theorem health_alert_priority:
  "let trig = filter (\<lambda>(idx, row). h_Alert_Triggered row = PyStr ''Yes'') df;
       out = generate_health_alerts df
   in length out = length trig \<and>
      (\<forall>i < length trig.
         Device_ID (out ! i) = h_Device_ID (snd (trig ! i)) \<and>
         Timestamp (out ! i) = h_Timestamp (snd (trig ! i)) \<and>
         Alert_Type (out ! i) = ''Health'' \<and>
         (threshold_flags (snd (trig ! i)) = 1 \<longrightarrow> Priority (out ! i) = ''Medium'') \<and>
         (threshold_flags (snd (trig ! i)) \<ge> 2 \<longrightarrow> Priority (out ! i) = ''High''))"
  by (auto simp: generate_health_alerts_def health_loop_eq Let_def health_alert_def
        length_health_reasons split: prod.splits)

theorem health_alert_priority_witness:
  "threshold_flags health_event_U1 = 2 \<and> threshold_flags health_event_U3 = 1
   \<and> length (generate_health_alerts [(0, health_event_U1), (1, health_event_U3)]) = 2
   \<and> Priority (generate_health_alerts [(0, health_event_U1), (1, health_event_U3)] ! 0) = ''High''
   \<and> Priority (generate_health_alerts [(0, health_event_U1), (1, health_event_U3)] ! 1) = ''Medium''"
  using health_alert_priority [of "[(0, health_event_U1), (1, health_event_U3)]"]
  by (simp add: Let_def health_event_U1_def health_event_U3_def threshold_flags_def
        All_less_Suc numeral_2_eq_2)

lemma safety_loop_eq:
  "\<forall>(idx, row) \<in> set rows. \<exists>a. safety_alert row = Inr a \<Longrightarrow>
   safety_loop rows acc = Inr (acc @ map (\<lambda>(idx, row). projr (safety_alert row)) rows)"
  by (induction rows arbitrary: acc) (auto split: sum.splits)

lemma safety_alert_ok:
  "s_Impact_Force_Level row = Txt ''High'' \<or> (\<forall>s. s_Inactivity_Duration row \<noteq> PyStr s)
   \<Longrightarrow> \<exists>a. safety_alert row = Inr a"
  by (cases "s_Inactivity_Duration row") (auto simp: safety_alert_def Let_def)

lemma safety_alert_fields:
  assumes "safety_alert row = Inr a"
  shows "Device_ID a = s_Device_ID row"
    and "Timestamp a = s_Timestamp row"
    and "Alert_Type a = ''Fall''"
    and "Status a = (if eq_bool (s_Caregiver_Notified row) False then ''Active'' else ''Notified'')"
    and "Message a = ''Fall detected in '' @ str_text (s_Location row) @ '' with ''
            @ str_text (s_Impact_Force_Level row) @ '' impact. ''
            @ py_str (s_Inactivity_Duration row) @ '' seconds of inactivity.''"
    and "(Priority a = ''High'') =
           (s_Impact_Force_Level row = Txt ''High'' \<or> gt_int (s_Inactivity_Duration row) 300 = Inr True)"
    and "Priority a = ''High'' \<or> Priority a = ''Medium''"
  using assms
  by (auto simp: safety_alert_def Let_def split: sum.splits if_splits)

text \<open>
  Claim C2. For every safety event with fall-detected true, \<open>generate_safety_alerts\<close>
  emits one alert, in the order of the events. Its priority is High if and only if the
  impact force level is \<open>"High"\<close> or the post-fall inactivity exceeds 300 seconds, and
  Medium otherwise; its message is the sentence \<open>Fall detected in {location} with
  {impact} impact. {inactivity} seconds of inactivity.\<close> with the three values of the
  event as Python prints them: an integer duration as \<open>45\<close> and a float one, which is what
  a column with a gap holds also after the gap is filled, as \<open>45.0\<close>. The comparison with
  300 is defined for every inactivity cell that is not a text, which is what the
  hypothesis asks of the fall events whose impact is not \<open>"High"\<close>.
\<close>

theorem safety_alert_priority_message:
  assumes "\<forall>(idx, row) \<in> set df. eq_bool (s_Fall_Detected row) True \<longrightarrow>
             s_Impact_Force_Level row = Txt ''High'' \<or> (\<forall>s. s_Inactivity_Duration row \<noteq> PyStr s)"
  shows "\<exists>out. generate_safety_alerts df = Inr out \<and>
           (let falls = filter (\<lambda>(idx, row). eq_bool (s_Fall_Detected row) True) df
            in length out = length falls \<and>
               (\<forall>i < length falls.
                  Device_ID (out ! i) = s_Device_ID (snd (falls ! i)) \<and>
                  Timestamp (out ! i) = s_Timestamp (snd (falls ! i)) \<and>
                  Alert_Type (out ! i) = ''Fall'' \<and>
                  ((Priority (out ! i) = ''High'') =
                     (s_Impact_Force_Level (snd (falls ! i)) = Txt ''High''
                      \<or> gt_int (s_Inactivity_Duration (snd (falls ! i))) 300 = Inr True)) \<and>
                  (Priority (out ! i) = ''High'' \<or> Priority (out ! i) = ''Medium'') \<and>
                  Message (out ! i) =
                    ''Fall detected in '' @ str_text (s_Location (snd (falls ! i))) @ '' with ''
                    @ str_text (s_Impact_Force_Level (snd (falls ! i))) @ '' impact. ''
                    @ py_str (s_Inactivity_Duration (snd (falls ! i)))
                    @ '' seconds of inactivity.''))"
proof -
  define falls where "falls = filter (\<lambda>(idx, row). eq_bool (s_Fall_Detected row) True) df"
  have ok: "\<forall>(idx, row) \<in> set falls. \<exists>a. safety_alert row = Inr a"
    using assms by (auto simp: falls_def intro!: safety_alert_ok)
  define out where "out = map (\<lambda>(idx, row). projr (safety_alert row)) falls"
  have gen: "generate_safety_alerts df = Inr out"
    using safety_loop_eq [OF ok, of "[]"] by (simp add: generate_safety_alerts_def falls_def out_def)
  have len: "length out = length falls" by (simp add: out_def)
  have row: "safety_alert (snd (falls ! i)) = Inr (out ! i)" if i: "i < length falls" for i
  proof -
    obtain idx r where p: "falls ! i = (idx, r)" by (cases "falls ! i")
    have "(idx, r) \<in> set falls" using i p by (metis nth_mem)
    then obtain a where "safety_alert r = Inr a" using ok by auto
    then show ?thesis using i p by (simp add: out_def)
  qed
  show ?thesis
    unfolding Let_def falls_def [symmetric]
    using gen len safety_alert_fields [OF row] by (intro exI [of _ out]) simp
qed

theorem safety_alert_priority_message_witness:
  "\<exists>out. generate_safety_alerts
            [(0, safety_event_U2),
             (1, safety_event_U2 \<lparr> s_Inactivity_Duration := PyFloat False 45 0 \<rparr>),
             (2, safety_event_U2 \<lparr> s_Fall_Detected := PyBool False \<rparr>),
             (3, safety_event_U2 \<lparr> s_Inactivity_Duration := PyFloat False 3015 (- 1) \<rparr>),
             (4, safety_event_U2 \<lparr> s_Impact_Force_Level := Txt ''High'',
                                   s_Inactivity_Duration := PyFloat False 0 0 \<rparr>)] = Inr out
         \<and> map Priority out = [''Medium'', ''Medium'', ''High'', ''High'']
         \<and> map Message out =
             [''Fall detected in Bathroom with Low impact. 45 seconds of inactivity.'',
              ''Fall detected in Bathroom with Low impact. 45.0 seconds of inactivity.'',
              ''Fall detected in Bathroom with Low impact. 301.5 seconds of inactivity.'',
              ''Fall detected in Bathroom with High impact. 0.0 seconds of inactivity.'']"
proof -
  define df where "df =
      [(0 :: nat, safety_event_U2),
       (1, safety_event_U2 \<lparr> s_Inactivity_Duration := PyFloat False 45 0 \<rparr>),
       (2, safety_event_U2 \<lparr> s_Fall_Detected := PyBool False \<rparr>),
       (3, safety_event_U2 \<lparr> s_Inactivity_Duration := PyFloat False 3015 (- 1) \<rparr>),
       (4, safety_event_U2 \<lparr> s_Impact_Force_Level := Txt ''High'',
                             s_Inactivity_Duration := PyFloat False 0 0 \<rparr>)]"
  have h: "\<forall>(idx, row) \<in> set df. eq_bool (s_Fall_Detected row) True \<longrightarrow>
       s_Impact_Force_Level row = Txt ''High'' \<or> (\<forall>s. s_Inactivity_Duration row \<noteq> PyStr s)"
    by (simp add: df_def safety_event_U2_def)
  have falls: "filter (\<lambda>(idx, row). eq_bool (s_Fall_Detected row) True) df =
      [(0, safety_event_U2),
       (1, safety_event_U2 \<lparr> s_Inactivity_Duration := PyFloat False 45 0 \<rparr>),
       (3, safety_event_U2 \<lparr> s_Inactivity_Duration := PyFloat False 3015 (- 1) \<rparr>),
       (4, safety_event_U2 \<lparr> s_Impact_Force_Level := Txt ''High'',
                             s_Inactivity_Duration := PyFloat False 0 0 \<rparr>)]"
    by (simp add: df_def safety_event_U2_def)
  have strs: "str_int 45 = ''45''" "str_float False 45 0 = ''45.0''"
    "str_float False 3015 (- 1) = ''301.5''" "str_float False 0 0 = ''0.0''"
    by (simp_all add: str_int_def str_float_def strip_zeros.simps str_nat.simps digit_chr_def)
  have cmp: "\<not> float_value False 45 0 > 300" "float_value False 3015 (- 1) > 300"
    by (simp_all add: float_value_def)
  from safety_alert_priority_message [OF h] obtain out
    where gen: "generate_safety_alerts df = Inr out"
      and rest: "let falls = filter (\<lambda>(idx, row). eq_bool (s_Fall_Detected row) True) df
            in length out = length falls \<and>
               (\<forall>i < length falls.
                  Device_ID (out ! i) = s_Device_ID (snd (falls ! i)) \<and>
                  Timestamp (out ! i) = s_Timestamp (snd (falls ! i)) \<and>
                  Alert_Type (out ! i) = ''Fall'' \<and>
                  ((Priority (out ! i) = ''High'') =
                     (s_Impact_Force_Level (snd (falls ! i)) = Txt ''High''
                      \<or> gt_int (s_Inactivity_Duration (snd (falls ! i))) 300 = Inr True)) \<and>
                  (Priority (out ! i) = ''High'' \<or> Priority (out ! i) = ''Medium'') \<and>
                  Message (out ! i) =
                    ''Fall detected in '' @ str_text (s_Location (snd (falls ! i))) @ '' with ''
                    @ str_text (s_Impact_Force_Level (snd (falls ! i))) @ '' impact. ''
                    @ py_str (s_Inactivity_Duration (snd (falls ! i)))
                    @ '' seconds of inactivity.'')"
    by blast
  from rest have len: "length out = 4"
    unfolding Let_def falls by simp
  then obtain a b c d where out: "out = [a, b, c, d]"
    by (auto simp: length_Suc_conv numeral_eq_Suc)
  from rest have
    "Priority a = ''Medium'' \<and> Message a =
        ''Fall detected in Bathroom with Low impact. 45 seconds of inactivity.''"
    "Priority b = ''Medium'' \<and> Message b =
        ''Fall detected in Bathroom with Low impact. 45.0 seconds of inactivity.''"
    "Priority c = ''High'' \<and> Message c =
        ''Fall detected in Bathroom with Low impact. 301.5 seconds of inactivity.''"
    "Priority d = ''High'' \<and> Message d =
        ''Fall detected in Bathroom with High impact. 0.0 seconds of inactivity.''"
    unfolding Let_def falls out
    by (auto simp: All_less_Suc safety_event_U2_def strs cmp)
  then show ?thesis
    using gen unfolding df_def out by simp
qed

text \<open>
  A raw batch with a gap in the inactivity column, which is then a column of floats:
  the normaliser fills the gap with \<open>0.0\<close>, and the alerts print the durations as floats.
\<close>

lemma filled_gap_alert_messages:
  "\<exists>df out.
      process_safety_data parse
        [(0, safety_event_raw \<lparr> s_Inactivity_Duration := PyFloat False 45 0 \<rparr>),
         (1, safety_event_raw \<lparr> s_Inactivity_Duration := PyNaN \<rparr>)] = Inr df
      \<and> map (\<lambda>(idx, row). s_Inactivity_Duration row) df = [PyFloat False 45 0, PyFloat False 0 0]
      \<and> generate_safety_alerts df = Inr out
      \<and> map Priority out = [''Medium'', ''Medium'']
      \<and> map Message out =
          [''Fall detected in Bathroom with Low impact. 45.0 seconds of inactivity.'',
           ''Fall detected in Bathroom with Low impact. 0.0 seconds of inactivity.'']"
proof -
  have strs: "str_float False 45 0 = ''45.0''" "str_float False 0 0 = ''0.0''"
    by (simp_all add: str_float_def strip_zeros.simps str_nat.simps digit_chr_def)
  show ?thesis
    by (simp add: process_safety_data_def bindE_def set_timestamp_s_def set_date_s_def
          normalise_safety_row_def fill_value_def fillna_def safety_event_raw_def
          safety_event_U2_def generate_safety_alerts_def safety_alert_def float_value_def strs)
qed

lemma reminder_loop_eq:
  "reminder_loop rows acc = acc @ map (\<lambda>(idx, row). reminder_alert row)
      (filter (\<lambda>(idx, row). r_Reminder_Type row = Txt ''Medication''
                           \<or> r_Reminder_Type row = Txt ''Appointment'') rows)"
proof (induction rows arbitrary: acc)
  case Nil
  show ?case by simp
next
  case (Cons p rows)
  obtain idx row where p: "p = (idx, row)" by (cases p)
  show ?case
    by (cases "r_Reminder_Type row = Txt ''Medication''";
        cases "r_Reminder_Type row = Txt ''Appointment''")
       (simp_all add: p Cons.IH)
qed

text \<open>
  Claim C3. \<open>generate_reminder_alerts\<close> produces an alert for a reminder event if and only
  if the reminder was sent, was not acknowledged, and its type is Medication or
  Appointment: the alerts are, in order, those of the events that qualify, and a frame
  of one event yields an alert exactly when the event qualifies. An Exercise or
  Hydration reminder never produces an alert, whatever its flags. The alert has
  priority Medium for Medication and Low for Appointment, and its status is Active.
\<close>

theorem reminder_alert_rule:
  "(let qual = filter (\<lambda>(idx, row). eq_bool (r_Reminder_Sent row) True
                          \<and> eq_bool (r_Acknowledged row) False
                          \<and> (r_Reminder_Type row = Txt ''Medication''
                             \<or> r_Reminder_Type row = Txt ''Appointment'')) df;
        out = generate_reminder_alerts df
    in length out = length qual \<and>
       (\<forall>i < length qual.
          Device_ID (out ! i) = r_Device_ID (snd (qual ! i)) \<and>
          Timestamp (out ! i) = r_Timestamp (snd (qual ! i)) \<and>
          Alert_Type (out ! i) = ''Reminder'' \<and>
          Status (out ! i) = ''Active'' \<and>
          (r_Reminder_Type (snd (qual ! i)) = Txt ''Medication''
             \<longrightarrow> Priority (out ! i) = ''Medium'') \<and>
          (r_Reminder_Type (snd (qual ! i)) = Txt ''Appointment''
             \<longrightarrow> Priority (out ! i) = ''Low'')))
   \<and> ((generate_reminder_alerts [(idx, ev)] \<noteq> []) =
        (eq_bool (r_Reminder_Sent ev) True \<and> eq_bool (r_Acknowledged ev) False
         \<and> (r_Reminder_Type ev = Txt ''Medication'' \<or> r_Reminder_Type ev = Txt ''Appointment'')))
   \<and> (r_Reminder_Type ev = Txt ''Exercise'' \<or> r_Reminder_Type ev = Txt ''Hydration''
        \<longrightarrow> generate_reminder_alerts [(idx, ev)] = [])"
proof -
  have gen: "generate_reminder_alerts d = map (\<lambda>(idx, row). reminder_alert row)
      (filter (\<lambda>(idx, row). eq_bool (r_Reminder_Sent row) True
                          \<and> eq_bool (r_Acknowledged row) False
                          \<and> (r_Reminder_Type row = Txt ''Medication''
                             \<or> r_Reminder_Type row = Txt ''Appointment'')) d)" for d
    by (simp add: generate_reminder_alerts_def reminder_loop_eq case_prod_unfold)
  show ?thesis
    unfolding gen Let_def
    by (auto simp: reminder_alert_def Let_def case_prod_unfold)
qed

theorem reminder_alert_rule_witness:
  "length (generate_reminder_alerts [(0, reminder_event_U4)]) = 1
   \<and> Priority (generate_reminder_alerts [(0, reminder_event_U4)] ! 0) = ''Medium''
   \<and> Status (generate_reminder_alerts [(0, reminder_event_U4)] ! 0) = ''Active''
   \<and> generate_reminder_alerts [(0, reminder_event_U4 \<lparr>r_Reminder_Type := Txt ''Exercise''\<rparr>)] = []"
  using reminder_alert_rule [of "[(0, reminder_event_U4)]" 0
          "reminder_event_U4 \<lparr>r_Reminder_Type := Txt ''Exercise''\<rparr>"]
  by (simp add: Let_def reminder_event_U4_def)

subsection \<open>The sort of \<open>generate_alerts\<close>\<close>

lemma py_sort_reverse_set: "set (py_sort_reverse key xs) = set xs"
  by (simp add: py_sort_reverse_def)

lemma py_sort_reverse_length: "length (py_sort_reverse key xs) = length xs"
  by (simp add: py_sort_reverse_def)

lemma py_sort_reverse_desc:
  assumes "Suc i < length (py_sort_reverse key xs)"
  shows "key (py_sort_reverse key xs ! Suc i) \<le> key (py_sort_reverse key xs ! i)"
proof -
  let ?ys = "map key (py_sort_reverse key xs)"
  have "sorted (rev ?ys)"
    by (simp add: py_sort_reverse_def rev_map [symmetric])
  then have "?ys ! Suc i \<le> ?ys ! i"
    using assms by (intro sorted_rev_nth_mono) simp_all
  then show ?thesis using assms by simp
qed

lemma py_sort_reverse_stable:
  "filter (\<lambda>y. key y = k) (py_sort_reverse key xs) = filter (\<lambda>y. key y = k) xs"
  by (simp add: py_sort_reverse_def rev_filter [symmetric] sort_key_stable)

lemma is_Ts_eq: "is_Ts s \<Longrightarrow> is_Ts t \<Longrightarrow> (s = t) = (the_Ts s = the_Ts t)"
  by (cases s; cases t) simp_all

lemma is_Raw_eq: "\<not> is_Ts s \<Longrightarrow> \<not> is_Ts t \<Longrightarrow> (s = t) = (the_RawTs s = the_RawTs t)"
  by (cases s; cases t) simp_all

lemma is_Ts_le: "is_Ts s \<Longrightarrow> is_Ts t \<Longrightarrow> stamp_le s t = (the_Ts s \<le> the_Ts t)"
  by (cases s; cases t) simp_all

lemma is_Raw_le: "\<not> is_Ts s \<Longrightarrow> \<not> is_Ts t \<Longrightarrow> stamp_le s t = (the_RawTs s \<le> the_RawTs t)"
  by (cases s; cases t) simp_all

lemma filter_stamp_Ts:
  assumes "\<forall>a \<in> set xs. is_Ts (Timestamp a)"
  shows "filter (\<lambda>a. Timestamp a = t) xs
         = (if is_Ts t then filter (\<lambda>a. the_Ts (Timestamp a) = the_Ts t) xs else [])"
proof (cases "is_Ts t")
  case True
  then show ?thesis using assms by (auto intro!: filter_cong simp: is_Ts_eq)
next
  case False
  then have "\<forall>a \<in> set xs. Timestamp a \<noteq> t" using assms by auto
  then show ?thesis using False by (simp add: filter_empty_conv)
qed

lemma filter_stamp_Raw:
  assumes "\<forall>a \<in> set xs. \<not> is_Ts (Timestamp a)"
  shows "filter (\<lambda>a. Timestamp a = t) xs
         = (if is_Ts t then [] else filter (\<lambda>a. the_RawTs (Timestamp a) = the_RawTs t) xs)"
proof (cases "is_Ts t")
  case False
  then show ?thesis using assms by (auto intro!: filter_cong simp: is_Raw_eq)
next
  case True
  then have "\<forall>a \<in> set xs. Timestamp a \<noteq> t" using assms by auto
  then show ?thesis using True by (simp add: filter_empty_conv)
qed

lemma sort_by_timestamp_reverse_props:
  assumes "sort_by_timestamp_reverse alerts = Inr out"
  shows "length out = length alerts"
    and "\<forall>i. Suc i < length out \<longrightarrow> stamp_le (Timestamp (out ! Suc i)) (Timestamp (out ! i))"
    and "\<forall>t. filter (\<lambda>a. Timestamp a = t) out = filter (\<lambda>a. Timestamp a = t) alerts"
proof -
  consider (ts) "\<forall>a \<in> set alerts. is_Ts (Timestamp a)"
      "out = py_sort_reverse (\<lambda>a. the_Ts (Timestamp a)) alerts"
    | (raw) "\<forall>a \<in> set alerts. \<not> is_Ts (Timestamp a)"
      "out = py_sort_reverse (\<lambda>a. the_RawTs (Timestamp a)) alerts"
    using assms by (auto simp: sort_by_timestamp_reverse_def list_all_iff split: if_splits)
  then have "length out = length alerts
     \<and> (\<forall>i. Suc i < length out \<longrightarrow> stamp_le (Timestamp (out ! Suc i)) (Timestamp (out ! i)))
     \<and> (\<forall>t. filter (\<lambda>a. Timestamp a = t) out = filter (\<lambda>a. Timestamp a = t) alerts)"
  proof cases
    case ts
    have all: "\<forall>a \<in> set out. is_Ts (Timestamp a)" using ts by (simp add: py_sort_reverse_set)
    have "stamp_le (Timestamp (out ! Suc i)) (Timestamp (out ! i))" if i: "Suc i < length out" for i
    proof -
      have "is_Ts (Timestamp (out ! Suc i))" "is_Ts (Timestamp (out ! i))"
        using all i by (simp_all add: Suc_lessD)
      then show ?thesis
        using py_sort_reverse_desc [of i "\<lambda>a. the_Ts (Timestamp a)" alerts] i ts(2)
        by (simp add: is_Ts_le)
    qed
    moreover have "filter (\<lambda>a. Timestamp a = t) out = filter (\<lambda>a. Timestamp a = t) alerts" for t
      unfolding filter_stamp_Ts [OF all] filter_stamp_Ts [OF ts(1)]
      by (simp add: ts(2) py_sort_reverse_stable)
    ultimately show ?thesis by (simp add: ts(2) py_sort_reverse_length)
  next
    case raw
    have all: "\<forall>a \<in> set out. \<not> is_Ts (Timestamp a)" using raw by (simp add: py_sort_reverse_set)
    have "stamp_le (Timestamp (out ! Suc i)) (Timestamp (out ! i))" if i: "Suc i < length out" for i
    proof -
      have "\<not> is_Ts (Timestamp (out ! Suc i))" "\<not> is_Ts (Timestamp (out ! i))"
        using all i by (simp_all add: Suc_lessD)
      then show ?thesis
        using py_sort_reverse_desc [of i "\<lambda>a. the_RawTs (Timestamp a)" alerts] i raw(2)
        by (simp add: is_Raw_le)
    qed
    moreover have "filter (\<lambda>a. Timestamp a = t) out = filter (\<lambda>a. Timestamp a = t) alerts" for t
      unfolding filter_stamp_Raw [OF all] filter_stamp_Raw [OF raw(1)]
      by (simp add: raw(2) py_sort_reverse_stable)
    ultimately show ?thesis by (simp add: raw(2) py_sort_reverse_length)
  qed
  then show "length out = length alerts"
    and "\<forall>i. Suc i < length out \<longrightarrow> stamp_le (Timestamp (out ! Suc i)) (Timestamp (out ! i))"
    and "\<forall>t. filter (\<lambda>a. Timestamp a = t) out = filter (\<lambda>a. Timestamp a = t) alerts"
    by simp_all
qed

lemma health_alerts_stamps:
  "\<forall>(idx, row) \<in> set df. is_Ts (h_Timestamp row) \<Longrightarrow>
   \<forall>a \<in> set (generate_health_alerts df). is_Ts (Timestamp a)"
  by (auto simp: generate_health_alerts_def health_loop_eq health_alert_def Let_def)

lemma reminder_alerts_stamps:
  "\<forall>(idx, row) \<in> set df. is_Ts (r_Timestamp row) \<Longrightarrow>
   \<forall>a \<in> set (generate_reminder_alerts df). is_Ts (Timestamp a)"
  by (auto simp: generate_reminder_alerts_def reminder_loop_eq reminder_alert_def Let_def)

lemma safety_alerts_stamps:
  assumes "\<forall>(idx, row) \<in> set df. is_Ts (s_Timestamp row) \<and> (\<forall>str. s_Inactivity_Duration row \<noteq> PyStr str)"
  shows "\<exists>out. generate_safety_alerts df = Inr out \<and> (\<forall>a \<in> set out. is_Ts (Timestamp a))"
proof -
  let ?falls = "filter (\<lambda>(idx, row). eq_bool (s_Fall_Detected row) True) df"
  have ok: "\<forall>(idx, row) \<in> set ?falls. \<exists>a. safety_alert row = Inr a"
    using assms by (auto intro!: safety_alert_ok)
  have "is_Ts (Timestamp (projr (safety_alert row)))" if mem: "(idx, row) \<in> set ?falls" for idx row
  proof -
    obtain a where a: "safety_alert row = Inr a" using ok mem by auto
    have "is_Ts (s_Timestamp row)" using assms mem by auto
    then show ?thesis using safety_alert_fields(2) [OF a] a by simp
  qed
  then show ?thesis
    using safety_loop_eq [OF ok, of "[]"] by (auto simp: generate_safety_alerts_def)
qed

text \<open>
  Claim C4. For every combination of health, safety and reminder inputs, each of which
  may be absent, the list that \<open>generate_alerts\<close> returns is sorted descending by
  timestamp: every alert is followed by one whose timestamp is not later. Alerts with
  equal timestamps keep the relative order they had in the concatenation of the health,
  the safety and the reminder alerts. The call returns whenever the timestamps of the
  inputs are instants and no inactivity cell is a text.
\<close>

theorem generate_alerts_sorted_stable:
  "(generate_alerts health_data safety_data reminder_data = Inr out \<longrightarrow>
      (\<forall>i. Suc i < length out \<longrightarrow> stamp_le (Timestamp (out ! Suc i)) (Timestamp (out ! i)))
      \<and> (\<exists>safety_alerts.
            (case safety_data of None \<Rightarrow> Inr [] | Some df \<Rightarrow> generate_safety_alerts df)
              = Inr safety_alerts
            \<and> (let alerts = (case health_data of None \<Rightarrow> []
                                   | Some df \<Rightarrow> generate_health_alerts df)
                          @ safety_alerts
                          @ (case reminder_data of None \<Rightarrow> []
                                   | Some df \<Rightarrow> generate_reminder_alerts df)
               in length out = length alerts
                  \<and> (\<forall>t. filter (\<lambda>a. Timestamp a = t) out
                          = filter (\<lambda>a. Timestamp a = t) alerts))))
   \<and> ((\<forall>df. health_data = Some df \<longrightarrow> (\<forall>(idx, row) \<in> set df. is_Ts (h_Timestamp row)))
       \<and> (\<forall>df. safety_data = Some df \<longrightarrow>
              (\<forall>(idx, row) \<in> set df. is_Ts (s_Timestamp row)
                  \<and> (\<forall>str. s_Inactivity_Duration row \<noteq> PyStr str)))
       \<and> (\<forall>df. reminder_data = Some df \<longrightarrow> (\<forall>(idx, row) \<in> set df. is_Ts (r_Timestamp row)))
       \<longrightarrow> (\<exists>res. generate_alerts health_data safety_data reminder_data = Inr res))"
proof (intro conjI impI)
  assume gen: "generate_alerts health_data safety_data reminder_data = Inr out"
  then obtain alerts where col: "collect_alerts health_data safety_data reminder_data = Inr alerts"
    and srt: "sort_by_timestamp_reverse alerts = Inr out"
    by (auto simp: generate_alerts_def split: sum.splits)
  show "\<forall>i. Suc i < length out \<longrightarrow> stamp_le (Timestamp (out ! Suc i)) (Timestamp (out ! i))"
    by (rule sort_by_timestamp_reverse_props(2) [OF srt])
  from col obtain sa where
    sa: "(case safety_data of None \<Rightarrow> Inr [] | Some df \<Rightarrow> generate_safety_alerts df) = Inr sa"
    and alerts: "alerts = (case health_data of None \<Rightarrow> [] | Some df \<Rightarrow> generate_health_alerts df)
                   @ sa @ (case reminder_data of None \<Rightarrow> [] | Some df \<Rightarrow> generate_reminder_alerts df)"
    by (auto simp: collect_alerts_def Let_def split: sum.splits)
  show "\<exists>safety_alerts.
            (case safety_data of None \<Rightarrow> Inr [] | Some df \<Rightarrow> generate_safety_alerts df)
              = Inr safety_alerts
            \<and> (let alerts = (case health_data of None \<Rightarrow> []
                                   | Some df \<Rightarrow> generate_health_alerts df)
                          @ safety_alerts
                          @ (case reminder_data of None \<Rightarrow> []
                                   | Some df \<Rightarrow> generate_reminder_alerts df)
               in length out = length alerts
                  \<and> (\<forall>t. filter (\<lambda>a. Timestamp a = t) out
                          = filter (\<lambda>a. Timestamp a = t) alerts))"
    unfolding Let_def
    using sa sort_by_timestamp_reverse_props(1,3) [OF srt]
    by (intro exI [of _ sa]) (simp add: alerts)
next
  assume pre: "(\<forall>df. health_data = Some df \<longrightarrow> (\<forall>(idx, row) \<in> set df. is_Ts (h_Timestamp row)))
       \<and> (\<forall>df. safety_data = Some df \<longrightarrow>
              (\<forall>(idx, row) \<in> set df. is_Ts (s_Timestamp row)
                  \<and> (\<forall>str. s_Inactivity_Duration row \<noteq> PyStr str)))
       \<and> (\<forall>df. reminder_data = Some df \<longrightarrow> (\<forall>(idx, row) \<in> set df. is_Ts (r_Timestamp row)))"
  have h: "\<forall>a \<in> set (case health_data of None \<Rightarrow> [] | Some df \<Rightarrow> generate_health_alerts df).
             is_Ts (Timestamp a)"
    using pre health_alerts_stamps by (cases health_data) auto
  have r: "\<forall>a \<in> set (case reminder_data of None \<Rightarrow> [] | Some df \<Rightarrow> generate_reminder_alerts df).
             is_Ts (Timestamp a)"
    using pre reminder_alerts_stamps by (cases reminder_data) auto
  have "\<exists>sa. (case safety_data of None \<Rightarrow> Inr [] | Some df \<Rightarrow> generate_safety_alerts df) = Inr sa
            \<and> (\<forall>a \<in> set sa. is_Ts (Timestamp a))"
  proof (cases safety_data)
    case None
    then show ?thesis by simp
  next
    case (Some df)
    then show ?thesis using pre safety_alerts_stamps [of df] by auto
  qed
  then obtain sa where
    sa: "(case safety_data of None \<Rightarrow> Inr [] | Some df \<Rightarrow> generate_safety_alerts df) = Inr sa"
    and s: "\<forall>a \<in> set sa. is_Ts (Timestamp a)"
    by blast
  define alerts where "alerts = (case health_data of None \<Rightarrow> [] | Some df \<Rightarrow> generate_health_alerts df)
      @ sa @ (case reminder_data of None \<Rightarrow> [] | Some df \<Rightarrow> generate_reminder_alerts df)"
  have col: "collect_alerts health_data safety_data reminder_data = Inr alerts"
    using sa by (simp add: collect_alerts_def Let_def alerts_def)
  have all: "\<forall>a \<in> set alerts. is_Ts (Timestamp a)"
    using h r s unfolding alerts_def by (metis Un_iff set_append)
  show "\<exists>res. generate_alerts health_data safety_data reminder_data = Inr res"
    using col all by (simp add: generate_alerts_def sort_by_timestamp_reverse_def list_all_iff)
qed

lemma sample_alerts_value:
  "generate_alerts (Some [(0, health_event_U1), (1, health_event_U3)])
       (Some [(0, safety_event_U2)]) (Some [(0, reminder_event_U4)])
   = Inr [projr (safety_alert safety_event_U2), reminder_alert reminder_event_U4,
          health_alert health_event_U3, health_alert health_event_U1]"
  by (simp add: generate_alerts_def collect_alerts_def generate_health_alerts_def
        generate_safety_alerts_def generate_reminder_alerts_def Let_def
        sort_by_timestamp_reverse_def py_sort_reverse_def
        health_event_U1_def health_event_U3_def safety_event_U2_def reminder_event_U4_def
        health_alert_def safety_alert_def reminder_alert_def)

theorem generate_alerts_sorted_stable_witness:
  "(\<exists>out. generate_alerts (Some [(0, health_event_U1), (1, health_event_U3)])
             (Some [(0, safety_event_U2)]) (Some [(0, reminder_event_U4)]) = Inr out
      \<and> length out = 4
      \<and> stamp_le (Timestamp (out ! 1)) (Timestamp (out ! 0))
      \<and> filter (\<lambda>a. Timestamp a = Ts 120) out
          = [projr (safety_alert safety_event_U2), reminder_alert reminder_event_U4])
   \<and> (\<exists>res. generate_alerts None None None = Inr res)"
proof -
  let ?h = "Some [(0, health_event_U1), (1, health_event_U3)]"
  let ?s = "Some [(0, safety_event_U2)]"
  let ?r = "Some [(0, reminder_event_U4)]"
  let ?out = "[projr (safety_alert safety_event_U2), reminder_alert reminder_event_U4,
          health_alert health_event_U3, health_alert health_event_U1]"
  have ts: "Timestamp (projr (safety_alert safety_event_U2)) = Ts 120"
    "Timestamp (reminder_alert reminder_event_U4) = Ts 120"
    "Timestamp (health_alert health_event_U3) = Ts 60"
    "Timestamp (health_alert health_event_U1) = Ts 0"
    by (simp_all add: safety_alert_def reminder_alert_def health_alert_def Let_def
          health_event_U1_def health_event_U3_def safety_event_U2_def reminder_event_U4_def)
  have a: "stamp_le (Timestamp (?out ! 1)) (Timestamp (?out ! 0))"
    using generate_alerts_sorted_stable [of ?h ?s ?r ?out] sample_alerts_value
    by (simp add: ts)
  have b: "\<exists>res. generate_alerts None None None = Inr res"
    using generate_alerts_sorted_stable [of None None None "[]"] by simp
  show ?thesis
    using a b sample_alerts_value by (simp add: ts)
qed

section \<open>Properties of the fall risk labels\<close>

lemma map_rows_total:
  "\<forall>(idx, row) \<in> set df. f row = Inr (g row) \<Longrightarrow>
   map_rows f df = Inr (map (\<lambda>(idx, row). (idx, g row)) df)"
  by (induction df) auto

lemma loc_set_relabel:
  "loc_set_next_day_fall idx (relabel L base) = relabel (L(idx := True)) base"
  by (auto simp: loc_set_next_day_fall_def relabel_def)

lemma window_fall_relabel [simp]: "window_fall (relabel L X) row = window_fall X row"
  by (simp add: window_fall_def relabel_def list_ex_iff in_next_day_def case_prod_unfold)

lemma window_fall_label_update [simp]:
  "window_fall dd (row\<lparr>s_Next_Day_Fall := x\<rparr>) = window_fall dd row"
  by (simp add: window_fall_def in_next_day_def)

lemma filter_device_relabel:
  "filter (\<lambda>(j, r). s_Device_ID r = d) (relabel L base)
   = relabel L (filter (\<lambda>(j, r). s_Device_ID r = d) base)"
  by (induction base) (auto simp: relabel_def)

lemma label_rows_relabel:
  "label_rows dd rows (relabel L base)
   = relabel (\<lambda>j. L j \<or> (\<exists>(i, row) \<in> set rows. i = j \<and> window_fall dd row)) base"
proof (induction rows arbitrary: L)
  case Nil
  show ?case by simp
next
  case (Cons p rows)
  obtain idx row where p: "p = (idx, row)" by (cases p)
  let ?next = "filter (\<lambda>(j, r). in_next_day row r) dd"
  have cond: "(length ?next > 0 \<and> list_ex (\<lambda>(j, r). truthy (s_Fall_Detected r)) ?next)
              = window_fall dd row"
    by (auto simp: window_fall_def list_ex_iff filter_empty_conv)
  have unfold: "label_rows dd (p # rows) S
      = label_rows dd rows (if window_fall dd row then loc_set_next_day_fall idx S else S)" for S
    unfolding p label_rows.simps Let_def cond ..
  show ?case
  proof (cases "window_fall dd row")
    case True
    have "(\<lambda>j. (L(idx := True)) j \<or> (\<exists>(i, row) \<in> set rows. i = j \<and> window_fall dd row))
        = (\<lambda>j. L j \<or> (\<exists>(i, row) \<in> set (p # rows). i = j \<and> window_fall dd row))"
      using True by (auto simp: p fun_eq_iff)
    then show ?thesis
      using True by (simp add: unfold loc_set_relabel Cons.IH)
  next
    case False
    have "(\<lambda>j. L j \<or> (\<exists>(i, row) \<in> set rows. i = j \<and> window_fall dd row))
        = (\<lambda>j. L j \<or> (\<exists>(i, row) \<in> set (p # rows). i = j \<and> window_fall dd row))"
      using False by (auto simp: p fun_eq_iff)
    then show ?thesis
      using False by (simp add: unfold Cons.IH)
  qed
qed

lemma relabel_rows_window:
  "(\<exists>(i, row) \<in> set (relabel L fb). i = j \<and> window_fall fb row)
   = (\<exists>(i, row) \<in> set fb. i = j \<and> window_fall fb row)"
  by (force simp: relabel_def)

lemma label_devices_relabel:
  "label_devices ds (relabel L base)
   = relabel (\<lambda>j. L j \<or> (\<exists>d \<in> set ds. \<exists>(i, row) \<in> set base. i = j \<and> s_Device_ID row = d
                  \<and> window_fall (filter (\<lambda>(j, r). s_Device_ID r = d) base) row)) base"
proof (induction ds arbitrary: L)
  case Nil
  show ?case by simp
next
  case (Cons d ds)
  let ?fb = "filter (\<lambda>(j, r). s_Device_ID r = d) base"
  have step: "label_rows (relabel L ?fb) (relabel L ?fb) (relabel L base)
      = relabel (\<lambda>j. L j \<or> (\<exists>(i, row) \<in> set ?fb. i = j \<and> window_fall ?fb row)) base"
    by (simp add: label_rows_relabel relabel_rows_window)
  have "(\<lambda>j. (L j \<or> (\<exists>(i, row) \<in> set ?fb. i = j \<and> window_fall ?fb row))
            \<or> (\<exists>d \<in> set ds. \<exists>(i, row) \<in> set base. i = j \<and> s_Device_ID row = d
                   \<and> window_fall (filter (\<lambda>(j, r). s_Device_ID r = d) base) row))
      = (\<lambda>j. L j \<or> (\<exists>d \<in> set (d # ds). \<exists>(i, row) \<in> set base. i = j \<and> s_Device_ID row = d
                   \<and> window_fall (filter (\<lambda>(j, r). s_Device_ID r = d) base) row))"
    by (auto simp: fun_eq_iff)
  then show ?case
    by (simp add: Let_def filter_device_relabel step Cons.IH)
qed

lemma distinct_fst_insort_key:
  "distinct (map g (insort_key f x xs)) = (g x \<notin> g ` set xs \<and> distinct (map g xs))"
  by (induction xs) (auto simp: set_insort_key)

lemma distinct_fst_sort_key: "distinct (map g (sort_key f xs)) = distinct (map g xs)"
  by (induction xs) (simp_all add: distinct_fst_insort_key)

lemma map_of_relabel:
  "map_of (relabel L base) idx
   = map_option (\<lambda>r. r\<lparr>s_Next_Day_Fall := Some (L idx)\<rparr>) (map_of base idx)"
  by (induction base) (auto simp: relabel_def)

lemma set_unique [simp]: "set (unique xs) = set xs"
  by (simp add: unique_def)

lemma time_columns_total:
  assumes "\<forall>(idx, row) \<in> set df. is_Ts (s_Timestamp row)"
  shows "bindE (map_rows set_hour_s df) (map_rows set_dayofweek_s)
         = Inr (map (\<lambda>(idx, row). (idx, with_time_columns row)) df)"
proof -
  have hour: "set_hour_s row = Inr (row\<lparr>s_Hour := Some ((the_Ts (s_Timestamp row) div ns_per_hour) mod 24)\<rparr>)"
    if "is_Ts (s_Timestamp row)" for row
    using that by (cases "s_Timestamp row") (simp_all add: set_hour_s_def bindE_def)
  have day: "set_dayofweek_s row
      = Inr (row\<lparr>s_DayOfWeek := Some ((the_Ts (s_Timestamp row) div ns_per_day + 3) mod 7)\<rparr>)"
    if "is_Ts (s_Timestamp row)" for row
    using that by (cases "s_Timestamp row") (simp_all add: set_dayofweek_s_def bindE_def)
  let ?h = "\<lambda>row. row\<lparr>s_Hour := Some ((the_Ts (s_Timestamp row) div ns_per_hour) mod 24)\<rparr>"
  let ?d = "\<lambda>row. row\<lparr>s_DayOfWeek := Some ((the_Ts (s_Timestamp row) div ns_per_day + 3) mod 7)\<rparr>"
  have 1: "map_rows set_hour_s df = Inr (map (\<lambda>(idx, row). (idx, ?h row)) df)"
    using assms hour by (intro map_rows_total) auto
  have "\<forall>(idx, row) \<in> set (map (\<lambda>(idx, row). (idx, ?h row)) df). set_dayofweek_s row = Inr (?d row)"
    using assms day by auto
  then have 2: "map_rows set_dayofweek_s (map (\<lambda>(idx, row). (idx, ?h row)) df)
           = Inr (map (\<lambda>(idx, row). (idx, ?d row)) (map (\<lambda>(idx, row). (idx, ?h row)) df))"
    by (rule map_rows_total)
  have "bindE (map_rows set_hour_s df) (map_rows set_dayofweek_s)
        = Inr (map (\<lambda>(idx, row). (idx, ?d row)) (map (\<lambda>(idx, row). (idx, ?h row)) df))"
    unfolding 1 unfolding bindE_def sum.case 2 ..
  also have "\<dots> = Inr (map (\<lambda>(idx, row). (idx, with_time_columns row)) df)"
    by (simp add: with_time_columns_def case_prod_unfold)
  finally show ?thesis .
qed

lemma label_devices_all:
  "label_devices (unique (map (\<lambda>(idx, row). s_Device_ID row) (relabel (\<lambda>j. False) base)))
     (relabel (\<lambda>j. False) base)
   = relabel (\<lambda>j. \<exists>(i, row) \<in> set base. i = j
                \<and> window_fall (filter (\<lambda>(j, r). s_Device_ID r = s_Device_ID row) base) row) base"
proof -
  have devs: "set (map (\<lambda>(idx, row). s_Device_ID row) (relabel (\<lambda>j. False) base))
              = (\<lambda>p. s_Device_ID (snd p)) ` set base"
    by (force simp: relabel_def)
  have "(\<lambda>j. False \<or> (\<exists>d \<in> (\<lambda>p. s_Device_ID (snd p)) ` set base.
                \<exists>(i, row) \<in> set base. i = j \<and> s_Device_ID row = d
                   \<and> window_fall (filter (\<lambda>(j, r). s_Device_ID r = d) base) row))
         = (\<lambda>j. \<exists>(i, row) \<in> set base. i = j
                   \<and> window_fall (filter (\<lambda>(j, r). s_Device_ID r = s_Device_ID row) base) row)"
    by (rule ext) (auto simp: case_prod_unfold)
  then show ?thesis
    unfolding label_devices_relabel set_unique devs by simp
qed

lemma preprocess_data_fall_value:
  assumes "df \<noteq> []" and "\<forall>(idx, row) \<in> set df. is_Ts (s_Timestamp row)"
  shows "preprocess_data_fall self (Some df)
         = (let df2 = map (\<lambda>(idx, row). (idx, with_time_columns row)) df;
                base = sort_key (\<lambda>(idx, row). (s_Device_ID row, the_Ts (s_Timestamp row))) df2
            in Inr (self\<lparr>features := Some [''Hour'', ''DayOfWeek'', ''Movement Activity'', ''Location'']\<rparr>,
                    Some df2,
                    Some (relabel (\<lambda>j. \<exists>(i, row) \<in> set base. i = j
                             \<and> window_fall (filter (\<lambda>(j, r). s_Device_ID r = s_Device_ID row) base) row)
                           base)))"
proof -
  let ?df2 = "map (\<lambda>(idx, row). (idx, with_time_columns row)) df"
  define base where "base = sort_key (\<lambda>(idx, row). (s_Device_ID row, the_Ts (s_Timestamp row))) ?df2"
  have init: "map (\<lambda>(idx, row). (idx, row\<lparr>s_Next_Day_Fall := Some False\<rparr>)) base
              = relabel (\<lambda>j. False) base"
    by (simp add: relabel_def)
  have A: "preprocess_data_fall self (Some df)
        = bindE (bindE (map_rows set_hour_s df) (map_rows set_dayofweek_s)) (\<lambda>df.
            (let sorted = sort_key (\<lambda>(idx, row). (s_Device_ID row, the_Ts (s_Timestamp row))) df;
                 safety_data = map (\<lambda>(idx, row). (idx, row\<lparr>s_Next_Day_Fall := Some False\<rparr>)) sorted;
                 safety_data = label_devices (unique (map (\<lambda>(idx, row). s_Device_ID row) safety_data))
                                 safety_data
             in Inr (self\<lparr>features := Some [''Hour'', ''DayOfWeek'', ''Movement Activity'', ''Location'']\<rparr>,
                     Some df, Some safety_data)))"
    using assms(1) by (simp add: preprocess_data_fall_def bindE_def split: sum.splits)
  show ?thesis
    unfolding A time_columns_total [OF assms(2)]
    unfolding bindE_def sum.case Let_def base_def [symmetric]
    unfolding init label_devices_all ..
qed

lemma window_is_spec:
  assumes "set base = (\<lambda>(idx, row). (idx, with_time_columns row)) ` set df"
  shows "window_fall (filter (\<lambda>(j, r). s_Device_ID r = s_Device_ID row) base) (with_time_columns row)
         = fall_within_next_day df row"
proof -
  have fields: "s_Device_ID (with_time_columns r) = s_Device_ID r"
    "s_Timestamp (with_time_columns r) = s_Timestamp r"
    "s_Fall_Detected (with_time_columns r) = s_Fall_Detected r" for r
    by (simp_all add: with_time_columns_def)
  show ?thesis
    unfolding window_fall_def fall_within_next_day_def list_ex_iff
    by (force simp: assms in_next_day_def fields ns_per_day_def case_prod_unfold)
qed

lemma next_day_fall_general:
  assumes ne: "df \<noteq> []" and dist: "distinct (map fst df)"
    and ts: "\<forall>(idx, row) \<in> set df. is_Ts (s_Timestamp row)"
  shows "\<exists>self' caller out.
           preprocess_data_fall self (Some df) = Inr (self', caller, Some out)
           \<and> length out = length df
           \<and> (\<forall>(idx, row) \<in> set df.
                 next_day_fall_of out idx = Some (fall_within_next_day df row))"
proof -
  let ?df2 = "map (\<lambda>(idx, row). (idx, with_time_columns row)) df"
  define base where "base = sort_key (\<lambda>(idx, row). (s_Device_ID row, the_Ts (s_Timestamp row))) ?df2"
  define L where "L = (\<lambda>j. \<exists>(i, row) \<in> set base. i = j
        \<and> window_fall (filter (\<lambda>(j, r). s_Device_ID r = s_Device_ID row) base) row)"
  have val: "preprocess_data_fall self (Some df)
      = Inr (self\<lparr>features := Some [''Hour'', ''DayOfWeek'', ''Movement Activity'', ''Location'']\<rparr>,
             Some ?df2, Some (relabel L base))"
    unfolding preprocess_data_fall_value [OF ne ts] Let_def base_def [symmetric] L_def ..
  have set_base: "set base = (\<lambda>(idx, row). (idx, with_time_columns row)) ` set df"
    by (simp add: base_def)
  have m: "map fst ?df2 = map fst df" by (induction df) auto
  have dist_base: "distinct (map fst base)"
    unfolding base_def distinct_fst_sort_key m using dist .
  have len: "length (relabel L base) = length df"
    by (simp add: relabel_def base_def)
  have lab: "next_day_fall_of (relabel L base) idx = Some (fall_within_next_day df row)"
    if mem: "(idx, row) \<in> set df" for idx row
  proof -
    have inb: "(idx, with_time_columns row) \<in> set base"
      using mem by (force simp: set_base)
    then have look: "map_of base idx = Some (with_time_columns row)"
      using dist_base by simp
    have uniq: "r = with_time_columns row" if r: "(idx, r) \<in> set base" for r
    proof -
      have "map_of base idx = Some r"
        using dist_base r by (rule map_of_is_SomeI)
      then show ?thesis using look by simp
    qed
    have dev: "s_Device_ID (with_time_columns row) = s_Device_ID row"
      by (simp add: with_time_columns_def)
    have "L idx = (\<exists>r. (idx, r) \<in> set base
                     \<and> window_fall (filter (\<lambda>(j, r'). s_Device_ID r' = s_Device_ID r) base) r)"
      unfolding L_def by (simp add: case_prod_unfold Bex_def)
    also have "\<dots> = window_fall (filter (\<lambda>(j, r'). s_Device_ID r' = s_Device_ID (with_time_columns row)) base)
                    (with_time_columns row)"
      using inb uniq by blast
    also have "\<dots> = window_fall (filter (\<lambda>(j, r). s_Device_ID r = s_Device_ID row) base)
                    (with_time_columns row)"
      unfolding dev ..
    also have "\<dots> = fall_within_next_day df row"
      by (rule window_is_spec [OF set_base])
    finally show ?thesis
      by (simp add: next_day_fall_of_def map_of_relabel look)
  qed
  show ?thesis
    using val len lab by blast
qed

text \<open>
  Claim C5. The fall risk target is labelled with a forward-looking window per device:
  an event is labelled true exactly when a fall of the same device lies strictly after
  the event's own timestamp and at most 24 hours after it (the lower bound exclusive,
  the upper bound inclusive). For three events of one device at \<open>t0\<close> (no fall),
  \<open>t0\<close> + 2 h (a fall) and \<open>t0\<close> + 30 h (no fall), the label at \<open>t0\<close> is true and the
  label at \<open>t0\<close> + 2 h is false. The frame has one index label per row, as every frame
  of the program has, and its timestamps are instants.
\<close>

theorem next_day_fall_window:
  "(df \<noteq> [] \<and> distinct (map fst df) \<and> (\<forall>(idx, row) \<in> set df. is_Ts (s_Timestamp row))
      \<longrightarrow> (\<exists>self' caller out.
             preprocess_data_fall self (Some df) = Inr (self', caller, Some out)
             \<and> length out = length df
             \<and> (\<forall>(idx, row) \<in> set df.
                   next_day_fall_of out idx = Some (fall_within_next_day df row))))
   \<and> (distinct [i0, i1, i2]
      \<longrightarrow> (\<exists>self' caller out.
             preprocess_data_fall self (Some (three_events ev device t0 i0 i1 i2))
               = Inr (self', caller, Some out)
             \<and> next_day_fall_of out i0 = Some True
             \<and> next_day_fall_of out i1 = Some False
             \<and> next_day_fall_of out i2 = Some False))"
proof (intro conjI impI)
  assume "df \<noteq> [] \<and> distinct (map fst df) \<and> (\<forall>(idx, row) \<in> set df. is_Ts (s_Timestamp row))"
  then show "\<exists>self' caller out.
             preprocess_data_fall self (Some df) = Inr (self', caller, Some out)
             \<and> length out = length df
             \<and> (\<forall>(idx, row) \<in> set df.
                   next_day_fall_of out idx = Some (fall_within_next_day df row))"
    using next_day_fall_general [of df self] by blast
next
  assume d: "distinct [i0, i1, i2]"
  let ?df = "three_events ev device t0 i0 i1 i2"
  have ne: "?df \<noteq> []" by (simp add: three_events_def)
  have dist: "distinct (map fst ?df)" using d by (simp add: three_events_def)
  have ts: "\<forall>(idx, row) \<in> set ?df. is_Ts (s_Timestamp row)" by (simp add: three_events_def)
  obtain self' caller out where
    val: "preprocess_data_fall self (Some ?df) = Inr (self', caller, Some out)"
    and lab: "\<forall>(idx, row) \<in> set ?df. next_day_fall_of out idx = Some (fall_within_next_day ?df row)"
    using next_day_fall_general [OF ne dist ts, of self] by blast
  have "next_day_fall_of out i0 = Some True"
    "next_day_fall_of out i1 = Some False"
    "next_day_fall_of out i2 = Some False"
    using lab by (simp_all add: three_events_def fall_within_next_day_def ns_per_hour_def
        ns_per_second_def)
  then show "\<exists>self' caller out.
             preprocess_data_fall self (Some ?df) = Inr (self', caller, Some out)
             \<and> next_day_fall_of out i0 = Some True
             \<and> next_day_fall_of out i1 = Some False
             \<and> next_day_fall_of out i2 = Some False"
    using val by blast
qed

theorem next_day_fall_window_witness:
  "\<exists>self' caller out.
     preprocess_data_fall (init :: unit predictor) (Some (three_events safety_event_U2 ''U2'' 0 0 1 2))
       = Inr (self', caller, Some out)
     \<and> length out = 3
     \<and> next_day_fall_of out 0 = Some True
     \<and> next_day_fall_of out 1 = Some False
     \<and> next_day_fall_of out 2 = Some False"
proof -
  let ?df = "three_events safety_event_U2 ''U2'' 0 0 1 2"
  have h: "?df \<noteq> [] \<and> distinct (map fst ?df) \<and> (\<forall>(idx, row) \<in> set ?df. is_Ts (s_Timestamp row))"
    by (simp add: three_events_def)
  have d: "distinct [0, 1, 2 :: nat]" by simp
  have len: "length ?df = 3" by (simp add: three_events_def)
  from next_day_fall_window [of ?df "init :: unit predictor" 0 1 2 safety_event_U2 "''U2''" 0]
  have gen: "\<exists>self' caller out.
             preprocess_data_fall (init :: unit predictor) (Some ?df) = Inr (self', caller, Some out)
             \<and> length out = length ?df"
    and scen: "\<exists>self' caller out.
             preprocess_data_fall (init :: unit predictor) (Some ?df) = Inr (self', caller, Some out)
             \<and> next_day_fall_of out 0 = Some True
             \<and> next_day_fall_of out 1 = Some False
             \<and> next_day_fall_of out 2 = Some False"
    using h d by blast+
  show ?thesis
    using gen scen len by (metis Pair_inject old.sum.inject(2) option.inject)
qed

section \<open>Properties of the predictors\<close>

lemma sentinel_is_sentinel:
  "df \<noteq> [] \<Longrightarrow> sentinel_prediction sc lc df (Augmented (sentinel df))"
  by (simp add: sentinel_prediction_def sentinel_def list_all_iff case_prod_unfold comp_def)

text \<open>
  Claim C6. For each of the three predictors, the prediction of a fresh instance is the
  sentinel: score 0 and level \<open>"Low"\<close> for every input row. The operations return a
  frame for every input, so they never raise; for an input without rows the frame is
  the made-up row, again with score 0 and level \<open>"Low"\<close>.
\<close>

theorem untrained_predict_is_sentinel:
  "sentinel_prediction ''Risk_Score'' ''Risk_Level'' health_data
     (predict_risk predict_proba_h now init health_data)
   \<and> sentinel_prediction ''Fall_Risk_Score'' ''Fall_Risk_Level'' safety_data
       (predict_fall_risk predict_proba_s now init safety_data)
   \<and> sentinel_prediction ''Effectiveness_Score'' ''Effectiveness_Level'' reminder_data
       (predict_effectiveness predict_proba_r parse_time now later init reminder_data)"
proof (intro conjI)
  show "sentinel_prediction ''Risk_Score'' ''Risk_Level'' health_data
          (predict_risk predict_proba_h now init health_data)"
    by (cases "health_data = []")
       (simp_all add: predict_risk_def init_def sentinel_is_sentinel,
        simp add: sentinel_prediction_def health_placeholder_def)
  show "sentinel_prediction ''Fall_Risk_Score'' ''Fall_Risk_Level'' safety_data
          (predict_fall_risk predict_proba_s now init safety_data)"
    by (cases "safety_data = []")
       (simp_all add: predict_fall_risk_def init_def sentinel_is_sentinel,
        simp add: sentinel_prediction_def fall_placeholder_def)
  show "sentinel_prediction ''Effectiveness_Score'' ''Effectiveness_Level'' reminder_data
          (predict_effectiveness predict_proba_r parse_time now later init reminder_data)"
    by (cases "reminder_data = []")
       (simp_all add: predict_effectiveness_def init_def sentinel_is_sentinel,
        simp add: sentinel_prediction_def reminder_placeholder_def)
qed

lemma health_level_buckets:
  "pd_cut [0, 3 / 10, 7 / 10, 1] [''Low'', ''Medium'', ''High''] x
   = (if x \<le> 0 then PyNaN
      else if x \<le> 3 / 10 then PyStr ''Low''
      else if x \<le> 7 / 10 then PyStr ''Medium''
      else if x \<le> 1 then PyStr ''High''
      else PyNaN)"
  by (simp add: pd_cut_def not_less not_le)

lemma fall_level_buckets:
  "pd_cut [0, 3 / 10, 6 / 10, 1] [''Low'', ''Medium'', ''High''] x
   = (if x \<le> 0 then PyNaN
      else if x \<le> 3 / 10 then PyStr ''Low''
      else if x \<le> 6 / 10 then PyStr ''Medium''
      else if x \<le> 1 then PyStr ''High''
      else PyNaN)"
  by (simp add: pd_cut_def not_less not_le)

lemma str_tod_0830: "str_tod (TimeOfDay 8 30 0) = ''08:30:00''"
  by (simp add: two_digits_def str_nat.simps digit_chr_def)

lemma reminder_U4_time_columns:
  "bindE (map_rows (set_hour_r parse_0830) [(0, reminder_event_U4)]) (map_rows set_dayofweek_r)
   = Inr [(0, reminder_event_U4\<lparr>r_Hour := Some 8, r_DayOfWeek := Some 3\<rparr>)]"
  by (simp add: bindE_def set_hour_r_def set_dayofweek_r_def to_time_def
        two_digits_def str_nat.simps digit_chr_def
        parse_0830_def reminder_event_U4_def ns_per_day_def ns_per_hour_def ns_per_second_def)

text \<open>
  Claim C7, evaluated at a score of 0. A trained predictor gives the score 0 to a row for
  which every tree of the forest votes for the first class. The three prediction methods
  then leave the level of the row missing: \<open>pd.cut\<close> with the bins 0, 0.3, 0.7 (0.6 for
  falls), 1 excludes its lowest edge, so the score 0 is in no bin and is not \<open>Low\<close>.
\<close>

theorem zero_score_has_no_level:
  "scores_and_levels
     (predict_risk all_trees_vote_no now (trained_predictor health_features)
        [(0, health_event_U1)]) = [(0, PyNaN)]
   \<and> scores_and_levels
       (predict_fall_risk all_trees_vote_no now
          (trained_predictor [''Hour'', ''DayOfWeek'', ''Movement Activity'', ''Location''])
          [(0, safety_event_U2)]) = [(0, PyNaN)]
   \<and> scores_and_levels
       (predict_effectiveness all_trees_vote_no parse_0830 now later
          (trained_predictor reminder_features) [(0, reminder_event_U4)]) = [(0, PyNaN)]"
proof (intro conjI)
  show "scores_and_levels
     (predict_risk all_trees_vote_no now (trained_predictor health_features)
        [(0, health_event_U1)]) = [(0, PyNaN)]"
    by (simp add: predict_risk_def trained_predictor_def all_trees_vote_no_def
          score_or_sentinel_def scored_rows_def pd_cut_def)
  have s: "bindE (map_rows set_hour_s [(0, safety_event_U2)]) (map_rows set_dayofweek_s)
           = Inr [(0, with_time_columns safety_event_U2)]"
    using time_columns_total [of "[(0, safety_event_U2)]"] by (simp add: safety_event_U2_def)
  show "scores_and_levels
       (predict_fall_risk all_trees_vote_no now
          (trained_predictor [''Hour'', ''DayOfWeek'', ''Movement Activity'', ''Location''])
          [(0, safety_event_U2)]) = [(0, PyNaN)]"
    unfolding predict_fall_risk_def s
    by (simp add: trained_predictor_def all_trees_vote_no_def
          score_or_sentinel_def scored_rows_def pd_cut_def)
  show "scores_and_levels
       (predict_effectiveness all_trees_vote_no parse_0830 now later
          (trained_predictor reminder_features) [(0, reminder_event_U4)]) = [(0, PyNaN)]"
    unfolding predict_effectiveness_def reminder_U4_time_columns
    by (simp add: trained_predictor_def all_trees_vote_no_def
          score_or_sentinel_def scored_rows_def pd_cut_def Let_def)
qed

lemma train_health_frame:
  "\<exists>self' result. train_health new_pipeline fit_eval self merged_data
     = Inr (self', map (\<lambda>(idx, row). (idx, row\<lparr>m_Risk := Some (m_Has_Any_Alert row)\<rparr>)) merged_data,
            result)"
  by (cases "fit_eval (Some (new_pipeline
               (filter (\<lambda>f. f \<notin> set (filter (\<lambda>f. f \<in> set merged_columns) [''Movement Activity'']))
                  (filter (\<lambda>f. f \<in> set merged_columns) health_features))
               (filter (\<lambda>f. f \<in> set merged_columns) [''Movement Activity''])))
             (filter (\<lambda>f. f \<in> set merged_columns) health_features)
             (map (\<lambda>(idx, row). (idx, row\<lparr>m_Risk := Some (m_Has_Any_Alert row)\<rparr>)) merged_data)")
     (auto simp: train_health_def preprocess_data_health_def Let_def bindE_def)

lemma train_fall_frame:
  assumes "df \<noteq> []" and "\<forall>(idx, row) \<in> set df. is_Ts (s_Timestamp row)"
  shows "\<exists>self' result. train_fall fit_eval encoded_width self (Some df)
     = Inr (self', Some (map (\<lambda>(idx, row). (idx, with_time_columns row)) df), result)"
proof -
  obtain out where pre: "preprocess_data_fall self (Some df)
      = Inr (self\<lparr>features := Some [''Hour'', ''DayOfWeek'', ''Movement Activity'', ''Location'']\<rparr>,
             Some (map (\<lambda>(idx, row). (idx, with_time_columns row)) df), Some out)"
    unfolding preprocess_data_fall_value [OF assms] Let_def by blast
  show ?thesis
    by (cases "fit_eval (model self) [''Hour'', ''DayOfWeek'', ''Movement Activity'', ''Location''] out")
       (auto simp: train_fall_def pre bindE_def)
qed

lemma train_reminder_U4_frame:
  "\<exists>self' result. train_reminder parse_0830 fit_eval self (Some [(0, reminder_event_U4)])
     = Inr (self', Some [(0, reminder_event_U4\<lparr>r_Hour := Some 8, r_DayOfWeek := Some 3\<rparr>)], result)"
proof -
  let ?df = "[(0, reminder_event_U4\<lparr>r_Hour := Some 8, r_DayOfWeek := Some 3\<rparr>)]"
  have "\<exists>feats data. preprocess_data_reminder parse_0830 self (Some [(0, reminder_event_U4)])
      = Inr (self\<lparr>features := Some feats\<rparr>, Some ?df, Some [(0, data)])
      \<and> r_Reminder_Sent data = PyBool True"
    by (simp add: preprocess_data_reminder_def bindE_def set_hour_r_def set_dayofweek_r_def
          to_time_def two_digits_def str_nat.simps digit_chr_def parse_0830_def
          reminder_event_U4_def ns_per_day_def ns_per_hour_def ns_per_second_def Let_def)
       blast
  then obtain feats data where pre': "preprocess_data_reminder parse_0830 self (Some [(0, reminder_event_U4)])
      = Inr (self\<lparr>features := Some feats\<rparr>, Some ?df, Some [(0, data)])"
    and sent: "r_Reminder_Sent data = PyBool True"
    by blast
  show ?thesis
    by (cases "fit_eval (model self) feats [(0, data)]")
       (auto simp: train_reminder_def pre' bindE_def sent)
qed

text \<open>
  Claim C10, evaluated on a frame of one row. For each of the three predictors \<open>train\<close>
  returns with the caller's frame changed, whatever the estimator does: the merged table
  has gained the column \<open>Risk\<close>, the safety and the reminder frame have gained the
  columns \<open>Hour\<close> and \<open>DayOfWeek\<close>, which the input did not have.
\<close>

theorem train_writes_into_callers_frame:
  "(\<exists>self' result. train_health new_pipeline fit_eval_h init [(0, merged_event)]
       = Inr (self', [(0, merged_event\<lparr>m_Risk := Some (PyBool True)\<rparr>)], result))
   \<and> m_Risk merged_event = None
   \<and> (\<exists>self' result. train_fall fit_eval_s encoded_width init (Some [(0, safety_event_U2)])
       = Inr (self', Some [(0, safety_event_U2\<lparr>s_Hour := Some 0, s_DayOfWeek := Some 3\<rparr>)], result))
   \<and> s_Hour safety_event_U2 = None \<and> s_DayOfWeek safety_event_U2 = None
   \<and> (\<exists>self' result. train_reminder parse_0830 fit_eval_r init (Some [(0, reminder_event_U4)])
       = Inr (self', Some [(0, reminder_event_U4\<lparr>r_Hour := Some 8, r_DayOfWeek := Some 3\<rparr>)], result))
   \<and> r_Hour reminder_event_U4 = None \<and> r_DayOfWeek reminder_event_U4 = None"
proof (intro conjI)
  show "\<exists>self' result. train_health new_pipeline fit_eval_h init [(0, merged_event)]
       = Inr (self', [(0, merged_event\<lparr>m_Risk := Some (PyBool True)\<rparr>)], result)"
    using train_health_frame [of new_pipeline fit_eval_h init "[(0, merged_event)]"]
    by (simp add: merged_event_def)
  have "with_time_columns safety_event_U2
        = safety_event_U2\<lparr>s_Hour := Some 0, s_DayOfWeek := Some 3\<rparr>"
    by (simp add: with_time_columns_def safety_event_U2_def ns_per_day_def ns_per_hour_def
          ns_per_second_def)
  then show "\<exists>self' result. train_fall fit_eval_s encoded_width init (Some [(0, safety_event_U2)])
       = Inr (self', Some [(0, safety_event_U2\<lparr>s_Hour := Some 0, s_DayOfWeek := Some 3\<rparr>)], result)"
    using train_fall_frame [of "[(0, safety_event_U2)]" fit_eval_s encoded_width init]
    by (simp add: safety_event_U2_def)
  show "\<exists>self' result. train_reminder parse_0830 fit_eval_r init (Some [(0, reminder_event_U4)])
       = Inr (self', Some [(0, reminder_event_U4\<lparr>r_Hour := Some 8, r_DayOfWeek := Some 3\<rparr>)], result)"
    by (rule train_reminder_U4_frame)
qed (simp_all add: merged_event_def safety_event_U2_def reminder_event_U4_def)

theorem untrained_predict_is_sentinel_witness:
  "scores_and_levels
     (predict_risk all_trees_vote_no (Ts 0) (init :: unit predictor) [(0, health_event_U1)])
     = [(0, PyStr ''Low'')]
   \<and> scores_and_levels
       (predict_fall_risk all_trees_vote_no (Ts 0) (init :: unit predictor) [(0, safety_event_U2)])
       = [(0, PyStr ''Low'')]
   \<and> scores_and_levels
       (predict_effectiveness all_trees_vote_no parse_0830 (Ts 0) (Ts 1) (init :: unit predictor)
          [(0, reminder_event_U4)])
       = [(0, PyStr ''Low'')]"
  using untrained_predict_is_sentinel [of "[(0, health_event_U1)]" all_trees_vote_no "Ts 0"
      "[(0, safety_event_U2)]" all_trees_vote_no "[(0, reminder_event_U4)]" all_trees_vote_no
      parse_0830 "Ts 1"]
  by (auto simp: sentinel_prediction_def split: prediction.splits)

theorem zero_score_has_no_level_witness:
  "scores_and_levels
     (predict_risk all_trees_vote_no (Ts 0) (trained_predictor health_features)
        [(0, health_event_U1)]) = [(0, PyNaN)]
   \<and> scores_and_levels
       (predict_fall_risk all_trees_vote_no (Ts 0)
          (trained_predictor [''Hour'', ''DayOfWeek'', ''Movement Activity'', ''Location''])
          [(0, safety_event_U2)]) = [(0, PyNaN)]
   \<and> scores_and_levels
       (predict_effectiveness all_trees_vote_no parse_0830 (Ts 0) (Ts 1)
          (trained_predictor reminder_features) [(0, reminder_event_U4)]) = [(0, PyNaN)]"
  using zero_score_has_no_level [of "Ts 0" "Ts 1"] by simp

theorem train_writes_into_callers_frame_witness:
  "(\<exists>self' result.
       train_health (\<lambda>numerical categorical. ()) (\<lambda>m feats df. Inl (ValueError, m))
         init [(0, merged_event)]
       = Inr (self', [(0, merged_event\<lparr>m_Risk := Some (PyBool True)\<rparr>)], result))
   \<and> m_Risk merged_event = None
   \<and> (\<exists>self' result.
       train_fall (\<lambda>m feats df. Inl (ValueError, m)) (\<lambda>feats df. 0)
         (init :: unit predictor) (Some [(0, safety_event_U2)])
       = Inr (self', Some [(0, safety_event_U2\<lparr>s_Hour := Some 0, s_DayOfWeek := Some 3\<rparr>)], result))
   \<and> s_Hour safety_event_U2 = None
   \<and> (\<exists>self' result.
       train_reminder parse_0830 (\<lambda>m feats df. Inl (ValueError, m))
         (init :: unit predictor) (Some [(0, reminder_event_U4)])
       = Inr (self', Some [(0, reminder_event_U4\<lparr>r_Hour := Some 8, r_DayOfWeek := Some 3\<rparr>)], result))
   \<and> r_Hour reminder_event_U4 = None"
  using train_writes_into_callers_frame [of "\<lambda>numerical categorical. ()"
      "\<lambda>m feats df. Inl (ValueError, m)"
      "\<lambda>(m :: unit option) feats df. Inl (ValueError, m)" "\<lambda>feats df. 0"
      "\<lambda>(m :: unit option) feats df. Inl (ValueError, m)"]
  by simp

section \<open>Properties of the normaliser\<close>

lemma map_rows_Cons_Inr:
  "map_rows f ((idx, row) # df) = Inr out
   \<longleftrightarrow> (\<exists>row' rest. f row = Inr row' \<and> map_rows f df = Inr rest \<and> out = (idx, row') # rest)"
  by (cases "f row"; cases "map_rows f df") auto

lemma map_rows_Inr_iff:
  "map_rows f df = Inr out
   \<longleftrightarrow> (\<forall>(idx, row) \<in> set df. \<not> isl (f row))
       \<and> out = map (\<lambda>(idx, row). (idx, projr (f row))) df"
proof (induction df arbitrary: out)
  case Nil
  show ?case by auto
next
  case (Cons p df)
  obtain idx row where p: "p = (idx, row)" by (cases p)
  show ?case
    unfolding p map_rows_Cons_Inr Cons.IH
    by (cases "f row") auto
qed

lemma map_rows_first_error:
  assumes "\<forall>(idx, row) \<in> set df. (\<exists>q. f row = Inr q) \<or> f row = Inl e"
    and "\<exists>(idx, row) \<in> set df. f row = Inl e"
  shows "map_rows f df = Inl e"
  using assms
proof (induction df)
  case Nil
  then show ?case by simp
next
  case (Cons p df)
  obtain idx row where p: "p = (idx, row)" by (cases p)
  show ?case
  proof (cases "f row")
    case (Inl e')
    then have "e' = e" using Cons.prems(1) by (auto simp: p)
    then show ?thesis using Inl by (simp add: p)
  next
    case (Inr row')
    then have "\<exists>(idx, row) \<in> set df. f row = Inl e"
      using Cons.prems(2) by (auto simp: p)
    then have "map_rows f df = Inl e"
      using Cons.IH Cons.prems(1) by simp
    then show ?thesis using Inr by (simp add: p)
  qed
qed

lemma isl_bindE: "\<not> isl (bindE m g) \<longleftrightarrow> \<not> isl m \<and> \<not> isl (g (projr m))"
  by (cases m) (simp_all add: bindE_def)

lemma projr_bindE: "\<not> isl m \<Longrightarrow> projr (bindE m g) = projr (g (projr m))"
  by (cases m) (simp_all add: bindE_def)

lemma map_rows_bind:
  "bindE (map_rows f df) (map_rows g) = Inr out
   \<longleftrightarrow> map_rows (\<lambda>row. bindE (f row) g) df = Inr out"
proof (cases "map_rows f df")
  case (Inl e)
  then have "\<not> (\<forall>(idx, row) \<in> set df. \<not> isl (f row))"
    using map_rows_Inr_iff [of f df] by (metis Inl_Inr_False)
  then have "map_rows (\<lambda>row. bindE (f row) g) df \<noteq> Inr out"
    by (auto simp: map_rows_Inr_iff isl_bindE)
  moreover have "bindE (map_rows f df) (map_rows g) = Inl e"
    using Inl by (simp add: bindE_def)
  ultimately show ?thesis by simp
next
  case (Inr mid)
  then have ok: "\<forall>(idx, row) \<in> set df. \<not> isl (f row)"
    and mid: "mid = map (\<lambda>(idx, row). (idx, projr (f row))) df"
    by (simp_all add: map_rows_Inr_iff)
  have 1: "map (\<lambda>(idx, row). (idx, projr (g row))) mid
        = map (\<lambda>(idx, row). (idx, projr (bindE (f row) g))) df"
    using ok by (auto simp: mid projr_bindE)
  have 2: "(\<forall>(idx, row) \<in> set mid. \<not> isl (g row))
        \<longleftrightarrow> (\<forall>(idx, row) \<in> set df. \<not> isl (bindE (f row) g))"
    using ok by (auto simp: mid isl_bindE)
  have lhs: "bindE (map_rows f df) (map_rows g) = map_rows g mid"
    using Inr by (simp add: bindE_def)
  show ?thesis
    unfolding lhs map_rows_Inr_iff 1 2 ..
qed

lemma map_rows_map:
  "map_rows f (map (\<lambda>(idx, row). (idx, h row)) df) = map_rows (\<lambda>row. f (h row)) df"
  by (induction df) (auto split: sum.splits)

lemma bindE_Inr_iff: "bindE m k = Inr out \<longleftrightarrow> (\<exists>x. m = Inr x \<and> k x = Inr out)"
  by (cases m) (simp_all add: bindE_def)

lemma bindE_assoc: "bindE (bindE m k) h = bindE m (\<lambda>x. bindE (k x) h)"
  by (cases m) (simp_all add: bindE_def)

lemma three_stages:
  "bindE (map_rows f df) (\<lambda>d. bindE (map_rows g d) (map_rows h)) = Inr out
   \<longleftrightarrow> map_rows (\<lambda>row. bindE (bindE (f row) g) h) df = Inr out"
proof -
  have "bindE (map_rows f df) (\<lambda>d. bindE (map_rows g d) (map_rows h)) = Inr out
        \<longleftrightarrow> (\<exists>mid. bindE (map_rows f df) (map_rows g) = Inr mid \<and> map_rows h mid = Inr out)"
    unfolding bindE_assoc [symmetric] bindE_Inr_iff [of "bindE (map_rows f df) (map_rows g)"] ..
  also have "\<dots> \<longleftrightarrow> (\<exists>mid. map_rows (\<lambda>row. bindE (f row) g) df = Inr mid \<and> map_rows h mid = Inr out)"
    unfolding map_rows_bind ..
  also have "\<dots> \<longleftrightarrow> bindE (map_rows (\<lambda>row. bindE (f row) g) df) (map_rows h) = Inr out"
    unfolding bindE_Inr_iff ..
  also have "\<dots> \<longleftrightarrow> map_rows (\<lambda>row. bindE (bindE (f row) g) h) df = Inr out"
    unfolding map_rows_bind ..
  finally show ?thesis .
qed

lemma ex_map_rows:
  "(\<exists>d2. map_rows f df = Inr d2 \<and> Q d2)
   \<longleftrightarrow> (\<forall>(idx, row) \<in> set df. \<not> isl (f row))
       \<and> Q (map (\<lambda>(idx, row). (idx, projr (f row))) df)"
  by (auto simp: map_rows_Inr_iff)

lemma stage12_fields:
  assumes "bindE (set_timestamp_h parse row) set_date_h = Inr q"
  shows "h_Blood_Pressure q = h_Blood_Pressure row"
  using assms
  by (auto simp: bindE_def set_timestamp_h_def set_date_h_def split: sum.splits)

lemma process_health_data_Inr_iff:
  "process_health_data parse df = Inr out
   \<longleftrightarrow> \<not> (df \<noteq> [] \<and> list_all (\<lambda>(idx, row). h_Blood_Pressure row = NoTxt) df)
       \<and> (\<forall>(idx, row) \<in> set df. \<not> isl (normalise_health_row parse row))
       \<and> out = map (\<lambda>(idx, row). (idx, projr (normalise_health_row parse row))) df"
proof -
  let ?s12 = "\<lambda>row. bindE (set_timestamp_h parse row) set_date_h"
  let ?s345 = "\<lambda>row. bindE (bindE (cast_systolic (set_extracted row)) cast_diastolic) set_spo2"
  let ?check = "\<lambda>d. d \<noteq> [] \<and> list_all (\<lambda>(idx, row). h_Blood_Pressure row = NoTxt) d"
  have norm: "normalise_health_row parse row = bindE (?s12 row) ?s345" for row
    by (simp add: normalise_health_row_def bindE_assoc)
  have rest: "bindE (map_rows cast_systolic (map (\<lambda>(idx, row). (idx, set_extracted row)) d))
                (\<lambda>d. bindE (map_rows cast_diastolic d) (map_rows set_spo2)) = Inr out
        \<longleftrightarrow> map_rows ?s345 d = Inr out" for d
    unfolding map_rows_map three_stages ..
  define check where "check = (\<lambda>d :: health_row frame.
      d \<noteq> [] \<and> list_all (\<lambda>(idx, row). h_Blood_Pressure row = NoTxt) d)"
  define REST where "REST = (\<lambda>d.
      bindE (map_rows cast_systolic (map (\<lambda>(idx, row). (idx, set_extracted row)) d))
        (\<lambda>d. bindE (map_rows cast_diastolic d) (map_rows set_spo2)))"
  have P: "process_health_data parse df
      = bindE (map_rows (set_timestamp_h parse) df) (\<lambda>d.
        bindE (map_rows set_date_h d) (\<lambda>d.
        if check d then Inl AttributeError else REST d))"
    unfolding process_health_data_def check_def REST_def ..
  have "process_health_data parse df = Inr out
        \<longleftrightarrow> (\<exists>d2. bindE (map_rows (set_timestamp_h parse) df) (map_rows set_date_h) = Inr d2
                 \<and> \<not> check d2 \<and> REST d2 = Inr out)"
    unfolding P bindE_Inr_iff by (auto split: if_splits)
  also have "\<dots> \<longleftrightarrow> (\<exists>d2. bindE (map_rows (set_timestamp_h parse) df) (map_rows set_date_h) = Inr d2
                 \<and> \<not> ?check d2 \<and> map_rows ?s345 d2 = Inr out)"
    unfolding check_def REST_def rest ..
  also have "\<dots> \<longleftrightarrow> (\<exists>d2. map_rows ?s12 df = Inr d2 \<and> \<not> ?check d2 \<and> map_rows ?s345 d2 = Inr out)"
    unfolding map_rows_bind ..
  also have "\<dots> \<longleftrightarrow> (\<forall>(idx, row) \<in> set df. \<not> isl (?s12 row))
        \<and> \<not> ?check (map (\<lambda>(idx, row). (idx, projr (?s12 row))) df)
        \<and> map_rows (\<lambda>row. ?s345 (projr (?s12 row))) df = Inr out"
    unfolding ex_map_rows map_rows_map ..
  also have "\<dots> \<longleftrightarrow> (\<forall>(idx, row) \<in> set df. \<not> isl (?s12 row))
        \<and> \<not> ?check df
        \<and> (\<forall>(idx, row) \<in> set df. \<not> isl (?s345 (projr (?s12 row))))
        \<and> out = map (\<lambda>(idx, row). (idx, projr (?s345 (projr (?s12 row))))) df"
  proof -
    have "?check (map (\<lambda>(idx, row). (idx, projr (?s12 row))) df) = ?check df"
      if ok: "\<forall>(idx, row) \<in> set df. \<not> isl (?s12 row)"
    proof -
      have "h_Blood_Pressure (projr (?s12 row)) = h_Blood_Pressure row" if "(idx, row) \<in> set df" for idx row
      proof -
        from ok that obtain q where q: "?s12 row = Inr q" by (cases "?s12 row") auto
        show ?thesis using stage12_fields [OF q] q by simp
      qed
      then show ?thesis
        by (auto simp: list_all_iff)
    qed
    then show ?thesis
      unfolding map_rows_Inr_iff [of "\<lambda>row. ?s345 (projr (?s12 row))"] by blast
  qed
  also have "\<dots> \<longleftrightarrow> \<not> ?check df
        \<and> (\<forall>(idx, row) \<in> set df. \<not> isl (normalise_health_row parse row))
        \<and> out = map (\<lambda>(idx, row). (idx, projr (normalise_health_row parse row))) df"
  proof -
    have "map (\<lambda>(idx, row). (idx, projr (?s345 (projr (?s12 row))))) df
          = map (\<lambda>(idx, row). (idx, projr (normalise_health_row parse row))) df"
      if "\<forall>(idx, row) \<in> set df. \<not> isl (?s12 row)"
      using that by (auto simp: norm projr_bindE)
    moreover have "(\<forall>(idx, row) \<in> set df. \<not> isl (normalise_health_row parse row))
        \<longleftrightarrow> (\<forall>(idx, row) \<in> set df. \<not> isl (?s12 row))
            \<and> (\<forall>(idx, row) \<in> set df. \<not> isl (?s345 (projr (?s12 row))))"
      unfolding norm isl_bindE [of "?s12 _" ?s345] by auto
    ultimately show ?thesis by auto
  qed
  finally show ?thesis .
qed

lemma normalise_health_row_idempotent:
  assumes "normalise_health_row parse row = Inr q"
  shows "normalise_health_row parse q = Inr q"
proof -
  from assms obtain t d i1 i2 i3 where
    ts: "to_datetime parse (h_Timestamp row) = Inr (Ts t)"
    and d: "d = t div ns_per_day"
    and i1: "astype_int (fst (str_extract (h_Blood_Pressure row))) = Inr i1"
    and i2: "astype_int (snd (str_extract (h_Blood_Pressure row))) = Inr i2"
    and i3: "astype_int (h_Oxygen_Saturation row) = Inr i3"
    and q: "q = row\<lparr>h_Timestamp := Ts t, h_Date := Some d, h_Systolic := Some i1,
                   h_Diastolic := Some i2, h_SpO2 := Some i3\<rparr>"
    by (cases "h_Timestamp row")
       (auto simp: normalise_health_row_def bindE_def set_timestamp_h_def set_date_h_def
          cast_systolic_def cast_diastolic_def set_spo2_def set_extracted_def Let_def
          split: sum.splits option.splits)
  show ?thesis
    unfolding q
    by (simp add: normalise_health_row_def bindE_def set_timestamp_h_def set_date_h_def
          cast_systolic_def cast_diastolic_def set_spo2_def set_extracted_def Let_def
          i1 i2 i3 d)
qed

lemma normalise_health_row_keeps_bp:
  assumes "normalise_health_row parse row = Inr q"
  shows "h_Blood_Pressure q = h_Blood_Pressure row"
  using assms
  by (auto simp: normalise_health_row_def bindE_def set_timestamp_h_def set_date_h_def
        cast_systolic_def cast_diastolic_def set_spo2_def set_extracted_def Let_def
        split: sum.splits option.splits)

lemma process_health_data_idempotent:
  assumes "process_health_data parse df = Inr out"
  shows "process_health_data parse out = Inr out"
proof -
  let ?n = "normalise_health_row parse"
  from assms have check: "\<not> (df \<noteq> [] \<and> list_all (\<lambda>(idx, row). h_Blood_Pressure row = NoTxt) df)"
    and ok: "\<forall>(idx, row) \<in> set df. \<not> isl (?n row)"
    and out: "out = map (\<lambda>(idx, row). (idx, projr (?n row))) df"
    unfolding process_health_data_Inr_iff by blast+
  have row: "?n (projr (?n row)) = Inr (projr (?n row))"
    and bp: "h_Blood_Pressure (projr (?n row)) = h_Blood_Pressure row"
    if "(idx, row) \<in> set df" for idx row
  proof -
    from ok that obtain q where q: "?n row = Inr q" by (cases "?n row") auto
    show "?n (projr (?n row)) = Inr (projr (?n row))"
      using normalise_health_row_idempotent [OF q] q by simp
    show "h_Blood_Pressure (projr (?n row)) = h_Blood_Pressure row"
      using normalise_health_row_keeps_bp [OF q] q by simp
  qed
  have "list_all (\<lambda>(idx, row). h_Blood_Pressure row = NoTxt) out
        = list_all (\<lambda>(idx, row). h_Blood_Pressure row = NoTxt) df"
    unfolding out list_all_iff by (force simp: bp)
  moreover have "(out \<noteq> []) = (df \<noteq> [])" unfolding out by simp
  ultimately have 1: "\<not> (out \<noteq> [] \<and> list_all (\<lambda>(idx, row). h_Blood_Pressure row = NoTxt) out)"
    using check by simp
  have 2: "\<forall>(idx, row) \<in> set out. \<not> isl (?n row)"
    unfolding out by (auto simp: row)
  have 3: "out = map (\<lambda>(idx, row). (idx, projr (?n row))) out"
    unfolding out by (auto simp: row)
  show ?thesis
    unfolding process_health_data_Inr_iff using 1 2 3 by blast
qed

text \<open>
  Claim C8, evaluated on a batch of one raw record. The safety and the reminder
  normaliser accept the batch they returned, but not as a no-op: the first pass turns the
  flags \<open>'Yes'\<close> and \<open>'No'\<close> into booleans, and the second pass maps every boolean to
  the missing value, since the dictionary of \<open>Series.map\<close> has the two texts as its only
  keys. The health normaliser, which maps no flags, is idempotent
  (\<open>process_health_data_idempotent\<close>).
\<close>

theorem renormalising_loses_flags:
  "(\<exists>once twice.
       process_safety_data parse [(0, safety_event_raw)] = Inr once
       \<and> process_safety_data parse once = Inr twice
       \<and> map (\<lambda>(idx, row). s_Fall_Detected row) once = [PyBool True]
       \<and> map (\<lambda>(idx, row). s_Fall_Detected row) twice = [PyNaN]
       \<and> twice \<noteq> once)
   \<and> (\<exists>once twice.
       process_reminder_data parse parse_0830 [(0, reminder_event_raw)] = Inr once
       \<and> process_reminder_data parse parse_0830 once = Inr twice
       \<and> map (\<lambda>(idx, row). r_Reminder_Sent row) once = [PyBool True]
       \<and> map (\<lambda>(idx, row). r_Reminder_Sent row) twice = [PyNaN]
       \<and> twice \<noteq> once)"
proof (intro conjI)
  show "\<exists>once twice.
       process_safety_data parse [(0, safety_event_raw)] = Inr once
       \<and> process_safety_data parse once = Inr twice
       \<and> map (\<lambda>(idx, row). s_Fall_Detected row) once = [PyBool True]
       \<and> map (\<lambda>(idx, row). s_Fall_Detected row) twice = [PyNaN]
       \<and> twice \<noteq> once"
    by (simp add: process_safety_data_def bindE_def set_timestamp_s_def set_date_s_def
          normalise_safety_row_def fill_value_def fillna_def safety_event_raw_def
          safety_event_U2_def)
  show "\<exists>once twice.
       process_reminder_data parse parse_0830 [(0, reminder_event_raw)] = Inr once
       \<and> process_reminder_data parse parse_0830 once = Inr twice
       \<and> map (\<lambda>(idx, row). r_Reminder_Sent row) once = [PyBool True]
       \<and> map (\<lambda>(idx, row). r_Reminder_Sent row) twice = [PyNaN]
       \<and> twice \<noteq> once"
    by (simp add: process_reminder_data_def bindE_def set_timestamp_r_def set_date_r_def
          set_scheduled_time_def to_time_def parse_0830_def normalise_reminder_row_def
          reminder_event_raw_def reminder_event_U4_def two_digits_def str_nat.simps
          digit_chr_def)
qed

theorem renormalising_loses_flags_witness:
  "(\<exists>once twice.
       process_safety_data (\<lambda>s. None) [(0, safety_event_raw)] = Inr once
       \<and> process_safety_data (\<lambda>s. None) once = Inr twice
       \<and> map (\<lambda>(idx, row). s_Fall_Detected row) once = [PyBool True]
       \<and> map (\<lambda>(idx, row). s_Fall_Detected row) twice = [PyNaN]
       \<and> twice \<noteq> once)
   \<and> (\<exists>once twice.
       process_reminder_data (\<lambda>s. None) parse_0830 [(0, reminder_event_raw)] = Inr once
       \<and> process_reminder_data (\<lambda>s. None) parse_0830 once = Inr twice
       \<and> map (\<lambda>(idx, row). r_Reminder_Sent row) once = [PyBool True]
       \<and> map (\<lambda>(idx, row). r_Reminder_Sent row) twice = [PyNaN]
       \<and> twice \<noteq> once)"
  by (rule renormalising_loses_flags)

subsection \<open>Blood pressure\<close>

lemma digit_not_special:
  assumes "is_digit c"
  shows "\<not> is_space c" and "c \<noteq> CHR ''-''" and "c \<noteq> CHR ''+''" and "c \<noteq> CHR ''_''"
  using assms by (auto simp: is_digit_def is_space_def)

lemma int_body_digits: "digits_only s \<Longrightarrow> int_body s"
proof (induction s rule: int_body.induct)
  case 1
  then show ?case by (simp add: digits_only_def)
next
  case (2 c)
  then show ?case by (simp add: digits_only_def)
next
  case (3 c d ds)
  then have "is_digit c" "is_digit d" "digits_only (d # ds)"
    by (simp_all add: digits_only_def)
  then show ?case
    using 3 digit_not_special(4) [of d] by simp
qed

lemma strip_digits: "digits_only s \<Longrightarrow> strip s = s"
proof -
  assume d: "digits_only s"
  then obtain c cs where s: "s = c # cs" by (cases s) (simp_all add: digits_only_def)
  have all: "\<forall>x \<in> set s. \<not> is_space x"
    using d digit_not_special(1) by (auto simp: digits_only_def list_all_iff)
  have 1: "dropWhile is_space s = s"
    using all by (simp add: s)
  have "rev s \<noteq> []" using s by simp
  then obtain e es where r: "rev s = e # es" by (cases "rev s") auto
  have "e \<in> set s" using r by (metis list.set_intros(1) set_rev)
  then have 2: "dropWhile is_space (rev s) = rev s"
    using all by (simp add: r)
  show ?thesis by (simp add: strip_def 1 2)
qed

lemma py_int_digits: "digits_only s \<Longrightarrow> py_int s = Some (int (nat_of_digits s))"
proof -
  assume d: "digits_only s"
  then obtain c cs where s: "s = c # cs" and c: "is_digit c"
    by (cases s) (simp_all add: digits_only_def)
  have f: "filter is_digit s = s"
    using d by (simp add: digits_only_def list_all_iff)
  show ?thesis
    using digit_not_special(2,3) [OF c] int_body_digits [OF d]
    by (simp add: py_int_def strip_digits [OF d] Let_def f) (simp add: s)
qed

lemma match_here_digits:
  "match_here s = Some (g1, g2) \<Longrightarrow> digits_only g1 \<and> digits_only g2"
  by (auto simp: match_here_def Let_def digits_only_def list_all_iff
        split: if_splits list.splits dest: set_takeWhileD)

lemma re_search_digits:
  "re_search s = Some (g1, g2) \<Longrightarrow> digits_only g1 \<and> digits_only g2"
  by (induction s) (auto split: option.splits dest: match_here_digits)

lemma astype_int_group:
  assumes "digits_only g" and "in_int64 (int (nat_of_digits g))"
  shows "astype_int (PyStr g) = Inr (PyInt (int (nat_of_digits g)))"
  using assms by (simp add: py_int_digits)

lemma to_datetime_Ts:
  assumes "\<not> isl (to_datetime parse x)"
  obtains t where "to_datetime parse x = Inr (Ts t)"
  using assms by (cases x) (auto split: option.splits)

lemma stage12_value:
  assumes "\<not> isl (to_datetime parse (h_Timestamp row))"
  obtains t where "bindE (set_timestamp_h parse row) set_date_h
                   = Inr (row\<lparr>h_Timestamp := Ts t, h_Date := Some (t div ns_per_day)\<rparr>)"
proof -
  from assms obtain t where t: "to_datetime parse (h_Timestamp row) = Inr (Ts t)"
    by (rule to_datetime_Ts)
  have "bindE (set_timestamp_h parse row) set_date_h
        = Inr (row\<lparr>h_Timestamp := Ts t, h_Date := Some (t div ns_per_day)\<rparr>)"
    by (simp add: set_timestamp_h_def set_date_h_def bindE_def t)
  then show ?thesis by (rule that)
qed

lemma bp_numbers_None:
  assumes "bp_numbers row = None" and "h_Blood_Pressure row = Txt s"
  shows "re_search s = None"
  using assms by (auto simp: bp_numbers_def split: option.splits)

lemma bp_numbers_Some:
  assumes "bp_numbers row = Some (a, b)"
  obtains s g1 g2 where "h_Blood_Pressure row = Txt s" and "re_search s = Some (g1, g2)"
    and "a = int (nat_of_digits g1)" and "b = int (nat_of_digits g2)"
    and "digits_only g1" and "digits_only g2"
proof -
  from assms obtain s where s: "h_Blood_Pressure row = Txt s"
    by (cases "h_Blood_Pressure row") (auto simp: bp_numbers_def)
  from assms s obtain g1 g2 where g: "re_search s = Some (g1, g2)"
    by (cases "re_search s") (auto simp: bp_numbers_def)
  from assms s g have ab: "a = int (nat_of_digits g1)" "b = int (nat_of_digits g2)"
    by (simp_all add: bp_numbers_def)
  from re_search_digits [OF g] have "digits_only g1" "digits_only g2" by simp_all
  with s g ab show ?thesis by (rule that)
qed

lemma cast_systolic_no_match:
  assumes "bp_numbers row = None" and "h_Blood_Pressure row = Txt s"
  shows "cast_systolic (set_extracted row) = Inl ValueError"
proof -
  have "re_search s = None" using assms by (rule bp_numbers_None)
  then show ?thesis
    using assms(2) by (simp add: cast_systolic_def set_extracted_def bindE_def)
qed

lemma cast_systolic_match:
  assumes "bp_numbers row = Some (a, b)" and "in_int64 a"
  shows "\<exists>q. cast_systolic (set_extracted row) = Inr q"
proof -
  from assms(1) obtain s g1 g2 where s: "h_Blood_Pressure row = Txt s"
    and g: "re_search s = Some (g1, g2)" and a: "a = int (nat_of_digits g1)"
    and d: "digits_only g1"
    by (rule bp_numbers_Some)
  have "astype_int (PyStr g1) = Inr (PyInt a)"
    using astype_int_group [OF d] assms(2) a by simp
  then show ?thesis
    using s g by (simp add: cast_systolic_def set_extracted_def bindE_def)
qed

lemma casts_match:
  assumes "bp_numbers row = Some (a, b)" and "in_int64 a" and "in_int64 b"
  shows "bindE (cast_systolic (set_extracted row)) cast_diastolic
         = Inr (row\<lparr>h_Systolic := Some (PyInt a), h_Diastolic := Some (PyInt b)\<rparr>)"
proof -
  from assms(1) obtain s g1 g2 where s: "h_Blood_Pressure row = Txt s"
    and g: "re_search s = Some (g1, g2)"
    and a: "a = int (nat_of_digits g1)" and b: "b = int (nat_of_digits g2)"
    and d1: "digits_only g1" and d2: "digits_only g2"
    by (rule bp_numbers_Some)
  have c1: "astype_int (PyStr g1) = Inr (PyInt a)"
    using astype_int_group [OF d1] assms(2) a by simp
  have c2: "astype_int (PyStr g2) = Inr (PyInt b)"
    using astype_int_group [OF d2] assms(3) b by simp
  show ?thesis
    using s g c1 c2
    by (simp add: cast_systolic_def cast_diastolic_def set_extracted_def bindE_def
          del: astype_int.simps)
qed

lemma normalise_health_row_bp:
  assumes ts: "\<not> isl (to_datetime parse (h_Timestamp row))"
    and bp: "bp_numbers row = Some (a, b)" and a: "in_int64 a" and b: "in_int64 b"
    and ox: "\<not> isl (astype_int (h_Oxygen_Saturation row))"
  shows "\<not> isl (normalise_health_row parse row)"
    and "h_Systolic (projr (normalise_health_row parse row)) = Some (PyInt a)"
    and "h_Diastolic (projr (normalise_health_row parse row)) = Some (PyInt b)"
proof -
  from ts obtain t where s12: "bindE (set_timestamp_h parse row) set_date_h
      = Inr (row\<lparr>h_Timestamp := Ts t, h_Date := Some (t div ns_per_day)\<rparr>)"
    by (rule stage12_value)
  define q where "q = row\<lparr>h_Timestamp := Ts t, h_Date := Some (t div ns_per_day)\<rparr>"
  have bq: "bp_numbers q = Some (a, b)"
    using bp by (simp add: bp_numbers_def q_def)
  have oq: "h_Oxygen_Saturation q = h_Oxygen_Saturation row"
    by (simp add: q_def)
  from ox obtain i where i: "astype_int (h_Oxygen_Saturation row) = Inr i"
    by (cases "astype_int (h_Oxygen_Saturation row)") auto
  have "normalise_health_row parse row
        = bindE (bindE (set_timestamp_h parse row) set_date_h)
            (\<lambda>row. bindE (bindE (cast_systolic (set_extracted row)) cast_diastolic) set_spo2)"
    by (simp add: normalise_health_row_def bindE_assoc)
  also have "\<dots> = bindE (bindE (cast_systolic (set_extracted q)) cast_diastolic) set_spo2"
    unfolding s12 q_def [symmetric] by (simp add: bindE_def)
  also have "\<dots> = set_spo2 (q\<lparr>h_Systolic := Some (PyInt a), h_Diastolic := Some (PyInt b)\<rparr>)"
    unfolding casts_match [OF bq a b] by (simp add: bindE_def)
  also have "\<dots> = Inr (q\<lparr>h_Systolic := Some (PyInt a), h_Diastolic := Some (PyInt b),
                         h_SpO2 := Some i\<rparr>)"
    by (simp add: set_spo2_def oq i bindE_def)
  finally have v: "normalise_health_row parse row
      = Inr (q\<lparr>h_Systolic := Some (PyInt a), h_Diastolic := Some (PyInt b), h_SpO2 := Some i\<rparr>)" .
  show "\<not> isl (normalise_health_row parse row)"
    and "h_Systolic (projr (normalise_health_row parse row)) = Some (PyInt a)"
    and "h_Diastolic (projr (normalise_health_row parse row)) = Some (PyInt b)"
    unfolding v by simp_all
qed

lemma process_health_data_no_match:
  assumes stamps: "\<forall>(idx, row) \<in> set df. \<not> isl (to_datetime parse (h_Timestamp row))"
    and texts: "\<forall>(idx, row) \<in> set df. \<exists>s. h_Blood_Pressure row = Txt s"
    and fit: "\<forall>(idx, row) \<in> set df. \<forall>a b. bp_numbers row = Some (a, b) \<longrightarrow> in_int64 a \<and> in_int64 b"
    and bad: "\<exists>(idx, row) \<in> set df. bp_numbers row = None"
  shows "process_health_data parse df = Inl ValueError"
proof -
  let ?s12 = "\<lambda>row. bindE (set_timestamp_h parse row) set_date_h"
  define d2 where "d2 = map (\<lambda>(idx, row). (idx, projr (?s12 row))) df"
  have s12: "\<exists>t. ?s12 row = Inr (row\<lparr>h_Timestamp := Ts t, h_Date := Some (t div ns_per_day)\<rparr>)"
    if "(idx, row) \<in> set df" for idx row
  proof -
    from stamps that have "\<not> isl (to_datetime parse (h_Timestamp row))" by auto
    then show ?thesis by (rule stage12_value) blast
  qed
  have "map_rows ?s12 df = Inr d2"
    unfolding map_rows_Inr_iff d2_def using s12 by fastforce
  then have st: "bindE (map_rows (set_timestamp_h parse) df) (map_rows set_date_h) = Inr d2"
    unfolding map_rows_bind .
  then obtain d1 where d1: "map_rows (set_timestamp_h parse) df = Inr d1"
    and d12: "map_rows set_date_h d1 = Inr d2"
    unfolding bindE_Inr_iff by blast
  have keep: "bp_numbers (projr (?s12 row)) = bp_numbers row
      \<and> h_Blood_Pressure (projr (?s12 row)) = h_Blood_Pressure row"
    if "(idx, row) \<in> set df" for idx row
    using s12 [OF that] by (auto simp: bp_numbers_def)
  from bad obtain i0 r0 where r0: "(i0, r0) \<in> set df" and n0: "bp_numbers r0 = None"
    by auto
  from texts r0 obtain s0 where s0: "h_Blood_Pressure r0 = Txt s0" by auto
  have "(i0, projr (?s12 r0)) \<in> set d2"
    unfolding d2_def using r0 by force
  moreover have "h_Blood_Pressure (projr (?s12 r0)) = Txt s0"
    using keep [OF r0] s0 by simp
  ultimately have nocheck: "\<not> (d2 \<noteq> [] \<and> list_all (\<lambda>(idx, row). h_Blood_Pressure row = NoTxt) d2)"
    by (force simp: list_all_iff)
  have each: "(\<exists>q. cast_systolic (set_extracted row) = Inr q)
        \<or> cast_systolic (set_extracted row) = Inl ValueError"
    if mem: "(idx, row) \<in> set d2" for idx row
  proof -
    from mem obtain r where r: "(idx, r) \<in> set df" and row: "row = projr (?s12 r)"
      unfolding d2_def by auto
    from texts r obtain s where s: "h_Blood_Pressure r = Txt s" by auto
    have bs: "h_Blood_Pressure row = Txt s" and bn: "bp_numbers row = bp_numbers r"
      using keep [OF r] s row by simp_all
    show ?thesis
    proof (cases "bp_numbers r")
      case None
      then show ?thesis using cast_systolic_no_match [of row s] bs bn by simp
    next
      case (Some ab)
      obtain a b where ab: "ab = (a, b)" by (cases ab)
      from fit r Some ab have "in_int64 a" by auto
      then show ?thesis using cast_systolic_match [of row a b] Some ab bn by simp
    qed
  qed
  have one: "cast_systolic (set_extracted (projr (?s12 r0))) = Inl ValueError"
    using cast_systolic_no_match [of "projr (?s12 r0)" s0] keep [OF r0] n0 s0 by simp
  have "map_rows (\<lambda>row. cast_systolic (set_extracted row)) d2 = Inl ValueError"
  proof (rule map_rows_first_error)
    show "\<forall>(idx, row) \<in> set d2. (\<exists>q. cast_systolic (set_extracted row) = Inr q)
        \<or> cast_systolic (set_extracted row) = Inl ValueError"
      using each by auto
    have "(i0, projr (?s12 r0)) \<in> set d2"
      unfolding d2_def using r0 by force
    then show "\<exists>(idx, row) \<in> set d2. cast_systolic (set_extracted row) = Inl ValueError"
      using one by blast
  qed
  then have s3: "map_rows cast_systolic (map (\<lambda>(idx, row). (idx, set_extracted row)) d2)
      = Inl ValueError"
    unfolding map_rows_map .
  show ?thesis
    unfolding process_health_data_def d1
    using d12 nocheck s3 by (simp add: bindE_def)
qed

text \<open>
  Claim C9, as the code has it. Take a health batch in which every blood pressure is a
  text, every timestamp is an instant or parses, and every number that the pattern finds
  fits 64 bits. If some blood pressure holds no \<open>digits/digits\<close> part anywhere in its text,
  \<open>process_health_data\<close> fails with the \<open>ValueError\<close> of the integer cast. If every blood
  pressure holds such a part and every oxygen saturation casts to an integer, it succeeds,
  keeps the rows and their labels, and each record's \<open>Systolic\<close> and \<open>Diastolic\<close> are the two
  numbers of the leftmost such part of its text.
\<close>

theorem blood_pressure_search_and_cast:
  assumes stamps: "\<forall>(idx, row) \<in> set df. \<not> isl (to_datetime parse (h_Timestamp row))"
    and texts: "\<forall>(idx, row) \<in> set df. \<exists>s. h_Blood_Pressure row = Txt s"
    and fit: "\<forall>(idx, row) \<in> set df. \<forall>a b. bp_numbers row = Some (a, b) \<longrightarrow> in_int64 a \<and> in_int64 b"
  shows "((\<exists>(idx, row) \<in> set df. bp_numbers row = None)
            \<longrightarrow> process_health_data parse df = Inl ValueError)
       \<and> ((\<forall>(idx, row) \<in> set df. bp_numbers row \<noteq> None
                \<and> \<not> isl (astype_int (h_Oxygen_Saturation row)))
            \<longrightarrow> (\<exists>out. process_health_data parse df = Inr out
                   \<and> map (\<lambda>(idx, q). (idx, h_Systolic q, h_Diastolic q)) out
                     = map (\<lambda>(idx, row). (idx, map_option (PyInt \<circ> fst) (bp_numbers row),
                                                map_option (PyInt \<circ> snd) (bp_numbers row))) df))"
proof (intro conjI impI)
  assume "\<exists>(idx, row) \<in> set df. bp_numbers row = None"
  with stamps texts fit show "process_health_data parse df = Inl ValueError"
    by (rule process_health_data_no_match)
next
  assume all: "\<forall>(idx, row) \<in> set df. bp_numbers row \<noteq> None
      \<and> \<not> isl (astype_int (h_Oxygen_Saturation row))"
  define out where "out = map (\<lambda>(idx, row). (idx, projr (normalise_health_row parse row))) df"
  have row: "\<not> isl (normalise_health_row parse row)
      \<and> h_Systolic (projr (normalise_health_row parse row))
        = map_option (PyInt \<circ> fst) (bp_numbers row)
      \<and> h_Diastolic (projr (normalise_health_row parse row))
        = map_option (PyInt \<circ> snd) (bp_numbers row)"
    if mem: "(idx, row) \<in> set df" for idx row
  proof -
    from all mem obtain ab where ab: "bp_numbers row = Some ab"
      and ox: "\<not> isl (astype_int (h_Oxygen_Saturation row))"
      by auto
    obtain a b where p: "ab = (a, b)" by (cases ab)
    from stamps mem have ts: "\<not> isl (to_datetime parse (h_Timestamp row))" by auto
    from fit mem ab p have a: "in_int64 a" and b: "in_int64 b" by auto
    have bp: "bp_numbers row = Some (a, b)" using ab p by simp
    show ?thesis
      using normalise_health_row_bp [OF ts bp a b ox] bp by simp
  qed
  have nocheck: "\<not> (df \<noteq> [] \<and> list_all (\<lambda>(idx, row). h_Blood_Pressure row = NoTxt) df)"
  proof (cases df)
    case Nil
    then show ?thesis by simp
  next
    case (Cons p rest)
    obtain idx r where p: "p = (idx, r)" by (cases p)
    from texts Cons p obtain s where "h_Blood_Pressure r = Txt s" by auto
    then show ?thesis using Cons p by simp
  qed
  have "process_health_data parse df = Inr out"
    unfolding process_health_data_Inr_iff out_def using nocheck row by blast
  moreover have "map (\<lambda>(idx, q). (idx, h_Systolic q, h_Diastolic q)) out
      = map (\<lambda>(idx, row). (idx, map_option (PyInt \<circ> fst) (bp_numbers row),
                                 map_option (PyInt \<circ> snd) (bp_numbers row))) df"
    unfolding out_def using row by (auto simp: case_prod_unfold)
  ultimately show "\<exists>out. process_health_data parse df = Inr out
      \<and> map (\<lambda>(idx, q). (idx, h_Systolic q, h_Diastolic q)) out
        = map (\<lambda>(idx, row). (idx, map_option (PyInt \<circ> fst) (bp_numbers row),
                                   map_option (PyInt \<circ> snd) (bp_numbers row))) df"
    by blast
qed

lemma re_search_samples:
  "re_search ''120/80'' = Some (''120'', ''80'')"
  "re_search ''BP 120/80 mmHg'' = Some (''120'', ''80'')"
  "re_search ''7/5/3'' = Some (''7'', ''5'')"
  "re_search ''abc'' = None"
  "re_search ''99999999999999999999/80'' = Some (''99999999999999999999'', ''80'')"
  by (simp_all add: match_here_def is_digit_def)

lemma nat_of_digits_samples:
  "nat_of_digits ''120'' = 120"
  "nat_of_digits ''80'' = 80"
  "nat_of_digits ''7'' = 7"
  "nat_of_digits ''5'' = 5"
  "nat_of_digits ''99999999999999999999'' = 99999999999999999999"
  by (simp_all add: nat_of_digits_def digit_val_def)

lemma bp_numbers_samples:
  "bp_numbers (bp_event ''120/80'') = Some (120, 80)"
  "bp_numbers (bp_event ''BP 120/80 mmHg'') = Some (120, 80)"
  "bp_numbers (bp_event ''7/5/3'') = Some (7, 5)"
  "bp_numbers (bp_event ''abc'') = None"
  by (simp_all add: bp_numbers_def bp_event_def re_search_samples nat_of_digits_samples
        del: re_search.simps)

lemma bp_event_fields:
  "to_datetime parse (h_Timestamp (bp_event s)) = Inr (Ts 0)"
  "h_Blood_Pressure (bp_event s) = Txt s"
  "astype_int (h_Oxygen_Saturation (bp_event s)) = Inr (PyInt 98)"
  by (simp_all add: bp_event_def health_event_U1_def in_int64_def)

theorem blood_pressure_search_and_cast_witness:
  "process_health_data (\<lambda>s. None) [(0, bp_event ''120/80''), (1, bp_event ''abc'')]
     = Inl ValueError
   \<and> (\<exists>out. process_health_data (\<lambda>s. None)
               [(0, bp_event ''BP 120/80 mmHg''), (1, bp_event ''7/5/3'')] = Inr out
          \<and> map (\<lambda>(idx, q). (idx, h_Systolic q, h_Diastolic q)) out
            = [(0, Some (PyInt 120), Some (PyInt 80)), (1, Some (PyInt 7), Some (PyInt 5))])"
  using blood_pressure_search_and_cast
          [of "[(0, bp_event ''120/80''), (1, bp_event ''abc'')]" "\<lambda>s. None"]
        blood_pressure_search_and_cast
          [of "[(0, bp_event ''BP 120/80 mmHg''), (1, bp_event ''7/5/3'')]" "\<lambda>s. None"]
  by (simp add: bp_numbers_samples bp_event_fields in_int64_def)

lemma py_int_samples:
  "py_int ''120'' = Some 120"
  "py_int ''80'' = Some 80"
  "py_int ''99999999999999999999'' = Some 99999999999999999999"
  by (simp_all add: py_int_digits digits_only_def is_digit_def nat_of_digits_samples)

lemma is_bp_text_samples:
  "\<not> is_bp_text ''BP 120/80 mmHg''"
  "\<not> is_bp_text ''abc''"
  "is_bp_text ''99999999999999999999/80''"
  by (simp_all add: is_bp_text_def match_here_def is_digit_def)

lemma normalise_samples:
  "process_health_data (\<lambda>s. None) [(0, bp_event ''BP 120/80 mmHg'')]
     = Inr [(0, bp_event ''BP 120/80 mmHg''
                 \<lparr> h_Date := Some 0, h_Systolic := Some (PyInt 120),
                   h_Diastolic := Some (PyInt 80), h_SpO2 := Some (PyInt 98) \<rparr>)]"
  "process_health_data (\<lambda>s. None) [(0, bp_event ''abc'')] = Inl ValueError"
  "process_health_data (\<lambda>s. None) [(0, bp_event ''99999999999999999999/80''), (1, bp_event ''abc'')]
     = Inl OverflowError"
  "process_health_data (\<lambda>s. None) [(0, bp_event ''99999999999999999999/80'')]
     = Inl OverflowError"
  by (simp_all add: process_health_data_def bindE_def set_timestamp_h_def set_date_h_def
        set_extracted_def cast_systolic_def cast_diastolic_def set_spo2_def
        bp_event_def health_event_U1_def re_search_samples py_int_samples in_int64_def
        ns_per_day_def ns_per_hour_def ns_per_second_def
        del: re_search.simps)

theorem malformed_blood_pressure_counterexample:
  "\<not> is_bp_text ''BP 120/80 mmHg''
   \<and> (\<exists>out. process_health_data (\<lambda>s. None) [(0, bp_event ''BP 120/80 mmHg'')] = Inr out
          \<and> map (\<lambda>(idx, q). (h_Systolic q, h_Diastolic q)) out
            = [(Some (PyInt 120), Some (PyInt 80))])
   \<and> \<not> is_bp_text ''abc'' \<and> re_search ''abc'' = None
   \<and> process_health_data (\<lambda>s. None) [(0, bp_event ''abc'')] = Inl ValueError
   \<and> process_health_data (\<lambda>s. None)
        [(0, bp_event ''99999999999999999999/80''), (1, bp_event ''abc'')] = Inl OverflowError
   \<and> is_bp_text ''99999999999999999999/80''
   \<and> process_health_data (\<lambda>s. None) [(0, bp_event ''99999999999999999999/80'')]
       = Inl OverflowError"
  using is_bp_text_samples normalise_samples re_search_samples(4)
  by (simp del: re_search.simps)

end
